theory Spec2Isabelle
  imports Complex_Main
begin

section \<open>Cycloidal gearbox generator: curve generation and DXF export\<close>

text \<open>
  The development embeds the math functions and the DXF export of
  \<^verbatim>\<open>cycloidal_Gear_generator_V1-5.py\<close>.

  Numbers: Python floats and numpy \<^verbatim>\<open>float64\<close> values are modelled by the reals, so
  rounding errors are not part of the model; pin counts are Python ints (\<open>int\<close>).
  Two effects of the arithmetic are kept, because the code's control flow depends on them:
  \<^item> division of Python scalars by zero raises \<^verbatim>\<open>ZeroDivisionError\<close> (the callers in the
    program pass Python ints and floats, as the parameter dictionary holds them);
  \<^item> division of a numpy array by zero raises nothing: the element becomes \<^verbatim>\<open>inf\<close>
    or \<^verbatim>\<open>nan\<close>. Such a non-finite element is \<open>None\<close> below, a finite one \<open>Some x\<close>.
    Adding, subtracting or multiplying a non-finite value and a finite one is non-finite again.
\<close>

subsection \<open>Errors, numpy helpers\<close>

datatype error = ImportError | ValueError | ZeroDivisionError | IndexError | OSError

type_synonym npfloat = "real option"

type_synonym point3 = "real \<times> real \<times> real"

type_synonym np_point = "npfloat \<times> npfloat \<times> real"

definition np_div :: "real \<Rightarrow> real \<Rightarrow> npfloat" where
  "np_div a b = (if b = 0 then None else Some (a / b))"

definition np_add :: "npfloat \<Rightarrow> npfloat \<Rightarrow> npfloat" where
  "np_add a b = (case a of None \<Rightarrow> None | Some x \<Rightarrow> (case b of None \<Rightarrow> None | Some y \<Rightarrow> Some (x + y)))"

definition np_sub :: "npfloat \<Rightarrow> npfloat \<Rightarrow> npfloat" where
  "np_sub a b = (case a of None \<Rightarrow> None | Some x \<Rightarrow> (case b of None \<Rightarrow> None | Some y \<Rightarrow> Some (x - y)))"

definition np_mul :: "npfloat \<Rightarrow> npfloat \<Rightarrow> npfloat" where
  "np_mul a b = (case a of None \<Rightarrow> None | Some x \<Rightarrow> (case b of None \<Rightarrow> None | Some y \<Rightarrow> Some (x * y)))"

text \<open>
  \<^verbatim>\<open>np.linspace(start, stop, num, endpoint)\<close>: \<open>num\<close> evenly spaced samples; a negative
  \<open>num\<close> raises \<^verbatim>\<open>ValueError\<close>. With \<open>endpoint\<close> the step is \<open>(stop - start) / (num - 1)\<close>
  and the last sample is \<open>stop\<close>; without it the step is \<open>(stop - start) / num\<close>.
\<close>

definition linspace :: "real \<Rightarrow> real \<Rightarrow> int \<Rightarrow> bool \<Rightarrow> error + real list" where
  "linspace start stop num endpoint =
     (if num < 0 then Inl ValueError
      else
        (let d = (if endpoint then num - 1 else num)
         in Inr (map (\<lambda>i. if 0 < d then start + real i * ((stop - start) / of_int d)
                           else start + real i * (stop - start))
                   [0..<nat num])))"

subsection \<open>\<^verbatim>\<open>cycloid_disk\<close>\<close>

definition disk_xa :: "real \<Rightarrow> real \<Rightarrow> real \<Rightarrow> real \<Rightarrow> real" where
  "disk_xa rolling_circle_radius stationary_circle_radius eccentricity t =
     (rolling_circle_radius + stationary_circle_radius) * cos t
       - eccentricity * cos ((rolling_circle_radius + stationary_circle_radius) / stationary_circle_radius * t)"

definition disk_ya :: "real \<Rightarrow> real \<Rightarrow> real \<Rightarrow> real \<Rightarrow> real" where
  "disk_ya rolling_circle_radius stationary_circle_radius eccentricity t =
     (rolling_circle_radius + stationary_circle_radius) * sin t
       - eccentricity * sin ((rolling_circle_radius + stationary_circle_radius) / stationary_circle_radius * t)"

definition disk_dxa :: "real \<Rightarrow> real \<Rightarrow> real \<Rightarrow> real \<Rightarrow> real" where
  "disk_dxa rolling_circle_radius stationary_circle_radius eccentricity t =
     (rolling_circle_radius + stationary_circle_radius)
       * (- sin t + (eccentricity / stationary_circle_radius)
            * sin ((rolling_circle_radius + stationary_circle_radius) / stationary_circle_radius * t))"

definition disk_dya :: "real \<Rightarrow> real \<Rightarrow> real \<Rightarrow> real \<Rightarrow> real" where
  "disk_dya rolling_circle_radius stationary_circle_radius eccentricity t =
     (rolling_circle_radius + stationary_circle_radius)
       * (cos t - (eccentricity / stationary_circle_radius)
            * cos ((rolling_circle_radius + stationary_circle_radius) / stationary_circle_radius * t))"

definition effective_pin_radius :: "real \<Rightarrow> real \<Rightarrow> real" where
  "effective_pin_radius pin_diameter tolerance = pin_diameter / 2 + tolerance"

text \<open>The offset curve before rotation: \<^verbatim>\<open>xd\<close> and \<^verbatim>\<open>yd\<close> at one sample \<open>t\<close>.\<close>

definition disk_xd :: "real \<Rightarrow> real \<Rightarrow> real \<Rightarrow> real \<Rightarrow> real \<Rightarrow> npfloat" where
  "disk_xd rolling_circle_radius stationary_circle_radius eccentricity eff_pin_radius t =
     (let xa = disk_xa rolling_circle_radius stationary_circle_radius eccentricity t;
          dxa = disk_dxa rolling_circle_radius stationary_circle_radius eccentricity t;
          dya = disk_dya rolling_circle_radius stationary_circle_radius eccentricity t
      in np_add (Some xa) (np_mul (np_div eff_pin_radius (sqrt (dxa\<^sup>2 + dya\<^sup>2))) (Some (- dya))))"

definition disk_yd :: "real \<Rightarrow> real \<Rightarrow> real \<Rightarrow> real \<Rightarrow> real \<Rightarrow> npfloat" where
  "disk_yd rolling_circle_radius stationary_circle_radius eccentricity eff_pin_radius t =
     (let ya = disk_ya rolling_circle_radius stationary_circle_radius eccentricity t;
          dxa = disk_dxa rolling_circle_radius stationary_circle_radius eccentricity t;
          dya = disk_dya rolling_circle_radius stationary_circle_radius eccentricity t
      in np_add (Some ya) (np_mul (np_div eff_pin_radius (sqrt (dxa\<^sup>2 + dya\<^sup>2))) (Some dxa)))"

text \<open>
  One row of the returned array: rotation by \<^verbatim>\<open>-phi/num_lobes\<close> and translation by the
  eccentricity vector. The caller has checked \<open>num_lobes \<noteq> 0\<close> and a nonzero stationary radius
  (Python raises on either before any sample is produced).
\<close>

definition cycloid_sample :: "real \<Rightarrow> real \<Rightarrow> real \<Rightarrow> real \<Rightarrow> real \<Rightarrow> int \<Rightarrow> real \<Rightarrow> np_point" where
  "cycloid_sample rolling_circle_radius stationary_circle_radius eccentricity eff_pin_radius phi num_lobes t =
     (let xd = disk_xd rolling_circle_radius stationary_circle_radius eccentricity eff_pin_radius t;
          yd = disk_yd rolling_circle_radius stationary_circle_radius eccentricity eff_pin_radius t;
          x = np_add (np_sub (np_mul xd (Some (cos (- phi / of_int num_lobes))))
                             (np_mul yd (Some (sin (- phi / of_int num_lobes)))))
                     (Some (eccentricity * cos phi));
          y = np_add (np_add (np_mul xd (Some (sin (- phi / of_int num_lobes))))
                             (np_mul yd (Some (cos (- phi / of_int num_lobes)))))
                     (Some (eccentricity * sin phi))
      in (x, y, 0))"

text \<open>
  \<^verbatim>\<open>cycloid_disk\<close> with its local constant \<^verbatim>\<open>points_per_lobe\<close> as a parameter. The
  order of the checks is the order in which Python evaluates the lines: the quotient
  \<^verbatim>\<open>num_lobes/(num_lobes+1)\<close>, then \<^verbatim>\<open>np.linspace\<close>, then the division by the stationary
  radius, then \<^verbatim>\<open>-phi/num_lobes\<close>.
\<close>

definition cycloid_disk_pts ::
    "int \<Rightarrow> real \<Rightarrow> int \<Rightarrow> real \<Rightarrow> real \<Rightarrow> real \<Rightarrow> real \<Rightarrow> error + np_point list list" where
  "cycloid_disk_pts points_per_lobe eccentricity num_external_pins ring_diameter pin_diameter phi tolerance =
     (let ring_radius = ring_diameter / 2;
          num_lobes = num_external_pins - 1
      in if num_lobes + 1 = 0 then Inl ZeroDivisionError
         else
           (let rolling_circle_radius = (of_int num_lobes / of_int (num_lobes + 1)) * ring_radius;
                stationary_circle_radius = ring_radius / of_int (num_lobes + 1);
                total_points = points_per_lobe * num_lobes
            in case linspace 0 (2 * pi) total_points True of
                 Inl err \<Rightarrow> Inl err
               | Inr t_full \<Rightarrow>
                   if stationary_circle_radius = 0 then Inl ZeroDivisionError
                   else if num_lobes = 0 then Inl ZeroDivisionError
                   else Inr [map (cycloid_sample rolling_circle_radius stationary_circle_radius
                                    eccentricity (effective_pin_radius pin_diameter tolerance) phi num_lobes)
                               t_full]))"

definition cycloid_disk :: "real \<Rightarrow> int \<Rightarrow> real \<Rightarrow> real \<Rightarrow> real \<Rightarrow> real \<Rightarrow> error + np_point list list" where
  "cycloid_disk eccentricity num_external_pins ring_diameter pin_diameter phi tolerance =
     cycloid_disk_pts 1500 eccentricity num_external_pins ring_diameter pin_diameter phi tolerance"

subsection \<open>\<^verbatim>\<open>outer_ring\<close>\<close>

definition ring_inner_radius :: "real \<Rightarrow> real \<Rightarrow> int \<Rightarrow> real \<Rightarrow> real" where
  "ring_inner_radius ring_radius pin_radius num_pins angle =
     (let pin_factor = cos (of_int num_pins * angle);
          pocket_depth = pin_radius * 0.8;
          clearance_space = pin_radius * 0.8;
          radius_variation = pocket_depth + clearance_space
      in ring_radius - pocket_depth + radius_variation * (1 - pin_factor) / 2)"

text \<open>
  The inner profile is closed by appending \<^verbatim>\<open>inner_points[0]\<close>, which raises
  \<^verbatim>\<open>IndexError\<close> when there is no point (\<open>num_pins \<le> 0\<close>). The argument \<open>tolerance\<close> is
  accepted and not read.
\<close>

definition outer_ring ::
    "int \<Rightarrow> real \<Rightarrow> real \<Rightarrow> real \<Rightarrow> real \<Rightarrow> error + (point3 list \<times> point3 list)" where
  "outer_ring num_pins ring_diameter pin_diameter ring_width tolerance =
     (let pin_radius = pin_diameter / 2;
          ring_radius = ring_diameter / 2;
          total_points = 100 * num_pins;
          inner_points =
            map (\<lambda>i. (let angle = 2 * pi * real i / of_int total_points;
                           inner_radius = ring_inner_radius ring_radius pin_radius num_pins angle
                       in (inner_radius * cos angle, inner_radius * sin angle, 0)))
              [0..<nat total_points]
      in case inner_points of
           [] \<Rightarrow> Inl IndexError
         | p # ps \<Rightarrow>
             (let outer_radius = ring_radius + ring_width
              in case linspace 0 (2 * pi) 200 True of
                   Inl err \<Rightarrow> Inl err
                 | Inr t \<Rightarrow>
                     Inr (inner_points @ [p],
                          map (\<lambda>angle. (outer_radius * cos angle, outer_radius * sin angle, 0)) t)))"

subsection \<open>\<^verbatim>\<open>inner_pins\<close>, \<^verbatim>\<open>inner_circles\<close>, \<^verbatim>\<open>camshaft\<close>, \<^verbatim>\<open>eccentric_camshaft\<close>\<close>

text \<open>
  Each generator samples \<^verbatim>\<open>t = np.linspace(0, 2*np.pi, 200)\<close>. In the two loops the quotient
  \<^verbatim>\<open>-phi/num_lobes\<close> is a division of Python scalars, evaluated in the first iteration.
\<close>

definition inner_pin_sample :: "real \<Rightarrow> real \<Rightarrow> int \<Rightarrow> real \<Rightarrow> int \<Rightarrow> nat \<Rightarrow> real \<Rightarrow> point3" where
  "inner_pin_sample output_pin_radius output_disk_radius num_output_pins phi num_lobes i t =
     (let x = (output_pin_radius * sin t + output_disk_radius * cos (2 * pi * real i / of_int num_output_pins))
                * cos (- phi / of_int num_lobes)
              - (output_pin_radius * cos t + output_disk_radius * sin (2 * pi * real i / of_int num_output_pins))
                * sin (- phi / of_int num_lobes);
          y = (output_pin_radius * sin t + output_disk_radius * cos (2 * pi * real i / of_int num_output_pins))
                * sin (- phi / of_int num_lobes)
              + (output_pin_radius * cos t + output_disk_radius * sin (2 * pi * real i / of_int num_output_pins))
                * cos (- phi / of_int num_lobes)
      in (x, y, 0))"

definition inner_pins :: "int \<Rightarrow> int \<Rightarrow> real \<Rightarrow> real \<Rightarrow> real \<Rightarrow> error + point3 list list" where
  "inner_pins num_output_pins num_external_pins output_pin_diameter output_disk_diameter phi =
     (case linspace 0 (2 * pi) 200 True of
        Inl err \<Rightarrow> Inl err
      | Inr t \<Rightarrow>
          (let num_lobes = num_external_pins - 1;
               output_pin_radius = output_pin_diameter / 2;
               output_disk_radius = output_disk_diameter / 2
           in if 0 < num_output_pins \<and> num_lobes = 0 then Inl ZeroDivisionError
              else Inr (map (\<lambda>i. map (inner_pin_sample output_pin_radius output_disk_radius
                                          num_output_pins phi num_lobes i) t)
                          [0..<nat num_output_pins])))"

definition hole_radius :: "real \<Rightarrow> real \<Rightarrow> real \<Rightarrow> real" where
  "hole_radius output_pin_radius eccentricity tolerance = output_pin_radius + eccentricity + tolerance"

definition inner_circle_sample ::
    "real \<Rightarrow> real \<Rightarrow> real \<Rightarrow> real \<Rightarrow> int \<Rightarrow> real \<Rightarrow> int \<Rightarrow> nat \<Rightarrow> real \<Rightarrow> point3" where
  "inner_circle_sample eccentricity output_pin_radius output_disk_radius tolerance num_output_pins phi num_lobes i t =
     (let hole_r = hole_radius output_pin_radius eccentricity tolerance;
          x = (hole_r * cos t + output_disk_radius * cos (2 * pi * real i / of_int num_output_pins))
                * cos (- phi / of_int num_lobes)
              - (hole_r * sin t + output_disk_radius * sin (2 * pi * real i / of_int num_output_pins))
                * sin (- phi / of_int num_lobes)
              + eccentricity * cos phi;
          y = (hole_r * cos t + output_disk_radius * cos (2 * pi * real i / of_int num_output_pins))
                * sin (- phi / of_int num_lobes)
              + (hole_r * sin t + output_disk_radius * sin (2 * pi * real i / of_int num_output_pins))
                * cos (- phi / of_int num_lobes)
              + eccentricity * sin phi
      in (x, y, 0))"

definition inner_circles ::
    "real \<Rightarrow> int \<Rightarrow> int \<Rightarrow> real \<Rightarrow> real \<Rightarrow> real \<Rightarrow> real \<Rightarrow> error + point3 list list" where
  "inner_circles eccentricity num_output_pins num_external_pins output_pin_diameter output_disk_diameter phi tolerance =
     (case linspace 0 (2 * pi) 200 True of
        Inl err \<Rightarrow> Inl err
      | Inr t \<Rightarrow>
          (let num_lobes = num_external_pins - 1;
               output_pin_radius = output_pin_diameter / 2;
               output_disk_radius = output_disk_diameter / 2
           in if 0 < num_output_pins \<and> num_lobes = 0 then Inl ZeroDivisionError
              else Inr (map (\<lambda>i. map (inner_circle_sample eccentricity output_pin_radius output_disk_radius
                                          tolerance num_output_pins phi num_lobes i) t)
                          [0..<nat num_output_pins])))"

definition hole_diameter :: "real \<Rightarrow> real \<Rightarrow> real" where
  "hole_diameter camshaft_diameter tolerance = camshaft_diameter + 2 * tolerance"

definition camshaft :: "real \<Rightarrow> real \<Rightarrow> real \<Rightarrow> error + point3 list" where
  "camshaft camshaft_diameter phi tolerance =
     (case linspace 0 (2 * pi) 200 True of
        Inl err \<Rightarrow> Inl err
      | Inr t \<Rightarrow>
          Inr (map (\<lambda>t. (hole_diameter camshaft_diameter tolerance / 2 * cos t,
                          hole_diameter camshaft_diameter tolerance / 2 * sin t, 0)) t))"

definition shaft_radius :: "real \<Rightarrow> real \<Rightarrow> real" where
  "shaft_radius eccentricity camshaft_diameter = (camshaft_diameter - 2 * eccentricity) / 2"

definition eccentric_camshaft :: "real \<Rightarrow> real \<Rightarrow> real \<Rightarrow> error + point3 list" where
  "eccentric_camshaft eccentricity camshaft_diameter phi =
     (case linspace 0 (2 * pi) 200 True of
        Inl err \<Rightarrow> Inl err
      | Inr t \<Rightarrow>
          Inr (map (\<lambda>t. (shaft_radius eccentricity camshaft_diameter * cos t + eccentricity * cos phi,
                          shaft_radius eccentricity camshaft_diameter * sin t + eccentricity * sin phi, 0)) t))"

subsection \<open>\<^verbatim>\<open>export_to_dxf\<close>\<close>

text \<open>
  The document is the list of the entities added to the modelspace, in the order of the
  calls, each with its layer. The \<^verbatim>\<open>params\<close> dictionary is a record of the keys read.
  The library calls that add an entity (\<^verbatim>\<open>add_point\<close>, \<^verbatim>\<open>add_circle\<close>,
  \<^verbatim>\<open>add_lwpolyline\<close>, \<^verbatim>\<open>add_spline\<close>) are taken to accept any coordinates and radii.
\<close>

datatype layer =
  CYCLOID_DISK | OUTPUT_PINS | OUTPUT_HOLES | CAMSHAFT_HOLE | ECCENTRIC_CAM | OUTER_RING
  | PIN_CENTERS | CENTER_AXIS

datatype entity =
  Point "real \<times> real"
  | Circle "real \<times> real" real
  | LWPolyline "(real \<times> real) list" bool
  | Spline "np_point list" bool

type_synonym dxf_entities = "(layer \<times> entity) list"

definition layers_config :: "(layer \<times> nat) list" where
  "layers_config =
     [(CYCLOID_DISK, 1), (OUTPUT_PINS, 3), (OUTPUT_HOLES, 6), (CAMSHAFT_HOLE, 5),
      (ECCENTRIC_CAM, 2), (OUTER_RING, 8), (PIN_CENTERS, 7), (CENTER_AXIS, 4)]"

text \<open>Section 2: one point per external pin center.\<close>

definition dxf_pin_centers :: "int \<Rightarrow> real \<Rightarrow> dxf_entities" where
  "dxf_pin_centers Ne R =
     map (\<lambda>i. (let a = 2 * pi * real i / of_int Ne;
                    cx = R * cos a;
                    cy = R * sin a
                in (PIN_CENTERS, Point (cx, cy))))
       [0..<nat Ne]"

text \<open>
  Section 3: the merged outer ring. Python's \<^verbatim>\<open>round\<close> rounds a half to the even
  neighbour.
\<close>

definition py_round :: "real \<Rightarrow> int" where
  "py_round x =
     (let f = \<lfloor>x\<rfloor>; d = x - of_int f
      in if d < 1 / 2 then f else if 1 / 2 < d then f + 1 else if even f then f else f + 1)"

definition dxf_r_housing :: "real \<Rightarrow> real \<Rightarrow> int \<Rightarrow> real \<Rightarrow> real" where
  "dxf_r_housing R rp Ne theta =
     (let pocket_depth = rp * 0.8;
          clearance_space = rp * 0.8;
          radius_variation = pocket_depth + clearance_space;
          pin_factor = cos (of_int Ne * theta)
      in R - pocket_depth + (radius_variation * (1 - pin_factor) / 2))"

definition dxf_pin_idx :: "int \<Rightarrow> real \<Rightarrow> int" where
  "dxf_pin_idx Ne theta = (let step = 2 * pi / of_int Ne in py_round (theta / step))"

definition dxf_r_pin :: "real \<Rightarrow> real \<Rightarrow> int \<Rightarrow> real \<Rightarrow> real" where
  "dxf_r_pin R rp Ne theta =
     (let step = 2 * pi / of_int Ne;
          pin_idx = dxf_pin_idx Ne theta;
          pin_angle = of_int pin_idx * step;
          cx = R * cos pin_angle;
          cy = R * sin pin_angle;
          dot_prod = cx * cos theta + cy * sin theta;
          dist_sq = cx\<^sup>2 + cy\<^sup>2;
          discriminant = dot_prod\<^sup>2 - (dist_sq - rp\<^sup>2)
      in if 0 \<le> discriminant
         then (let d1 = dot_prod - sqrt discriminant in if 0 < d1 then d1 else 1000000000)
         else 1000000000)"

definition dxf_final_r :: "real \<Rightarrow> real \<Rightarrow> int \<Rightarrow> real \<Rightarrow> real" where
  "dxf_final_r R rp Ne theta = min (dxf_r_housing R rp Ne theta) (dxf_r_pin R rp Ne theta)"

definition dxf_outer_ring :: "int \<Rightarrow> real \<Rightarrow> real \<Rightarrow> real \<Rightarrow> error + dxf_entities" where
  "dxf_outer_ring Ne R pin_d ring_w =
     (let rp = pin_d / 2;
          points_per_pin = 30;
          num_samples = Ne * points_per_pin
      in case linspace 0 (2 * pi) num_samples False of
           Inl err \<Rightarrow> Inl err
         | Inr angles \<Rightarrow>
             (let poly_points =
                    map (\<lambda>theta. (dxf_final_r R rp Ne theta * cos theta,
                                   dxf_final_r R rp Ne theta * sin theta)) angles;
                  outer_radius = R + ring_w
              in Inr [(OUTER_RING, LWPolyline poly_points True),
                      (OUTER_RING, Circle (0, 0) outer_radius)]))"

text \<open>Sections 4 to 6: output pins, output holes, camshaft hole and eccentric cam.\<close>

definition dxf_output_pins :: "int \<Rightarrow> real \<Rightarrow> real \<Rightarrow> dxf_entities" where
  "dxf_output_pins No Rd out_pin_d =
     map (\<lambda>i. (let a = 2 * pi * real i / of_int No;
                    cx = Rd * cos a;
                    cy = Rd * sin a
                in (OUTPUT_PINS, Circle (cx, cy) (out_pin_d / 2))))
       [0..<nat No]"

definition dxf_hole_r :: "real \<Rightarrow> real \<Rightarrow> real \<Rightarrow> real" where
  "dxf_hole_r out_pin_d e tol = out_pin_d / 2 + e + tol"

definition dxf_output_holes :: "int \<Rightarrow> real \<Rightarrow> real \<Rightarrow> real \<Rightarrow> real \<Rightarrow> real \<Rightarrow> real \<Rightarrow> dxf_entities" where
  "dxf_output_holes No Rd out_pin_d e tol disk_center_x disk_center_y =
     map (\<lambda>i. (let a = 2 * pi * real i / of_int No;
                    cx = Rd * cos a + disk_center_x;
                    cy = Rd * sin a + disk_center_y
                in (OUTPUT_HOLES, Circle (cx, cy) (dxf_hole_r out_pin_d e tol))))
       [0..<nat No]"

definition dxf_cam_hole_r :: "real \<Rightarrow> real \<Rightarrow> real" where
  "dxf_cam_hole_r cam_d tol = cam_d / 2 + tol"

definition dxf_cam_lobe_r :: "real \<Rightarrow> real \<Rightarrow> real" where
  "dxf_cam_lobe_r cam_d e = (cam_d - 2 * e) / 2"

definition dxf_camshaft :: "real \<Rightarrow> real \<Rightarrow> real \<Rightarrow> real \<Rightarrow> real \<Rightarrow> dxf_entities" where
  "dxf_camshaft cam_d e tol disk_center_x disk_center_y =
     (CAMSHAFT_HOLE, Circle (0, 0) (dxf_cam_hole_r cam_d tol))
     # (if 0 < dxf_cam_lobe_r cam_d e
        then [(ECCENTRIC_CAM, Circle (disk_center_x, disk_center_y) (dxf_cam_lobe_r cam_d e))]
        else [])"

text \<open>
  Section 7: the cycloid disk, derived again inside the export with 60 points per lobe.
  Here \<^verbatim>\<open>np.linspace\<close> comes before the quotient \<^verbatim>\<open>num_lobes/(num_lobes+1)\<close>.
\<close>

definition dxf_disk_sample ::
    "real \<Rightarrow> real \<Rightarrow> real \<Rightarrow> real \<Rightarrow> real \<Rightarrow> int \<Rightarrow> real \<Rightarrow> real \<Rightarrow> real \<Rightarrow> np_point" where
  "dxf_disk_sample rolling stationary e pin_r phi num_lobes disk_center_x disk_center_y t =
     (let xa = (rolling + stationary) * cos t - e * cos ((rolling + stationary) / stationary * t);
          ya = (rolling + stationary) * sin t - e * sin ((rolling + stationary) / stationary * t);
          dxa = (rolling + stationary)
                  * (- sin t + (e / stationary) * sin ((rolling + stationary) / stationary * t));
          dya = (rolling + stationary)
                  * (cos t - (e / stationary) * cos ((rolling + stationary) / stationary * t));
          xd = np_add (Some xa) (np_mul (np_div pin_r (sqrt (dxa\<^sup>2 + dya\<^sup>2))) (Some (- dya)));
          yd = np_add (Some ya) (np_mul (np_div pin_r (sqrt (dxa\<^sup>2 + dya\<^sup>2))) (Some dxa));
          x = np_add (np_sub (np_mul xd (Some (cos (- phi / of_int num_lobes))))
                             (np_mul yd (Some (sin (- phi / of_int num_lobes)))))
                     (Some disk_center_x);
          y = np_add (np_add (np_mul xd (Some (sin (- phi / of_int num_lobes))))
                             (np_mul yd (Some (cos (- phi / of_int num_lobes)))))
                     (Some disk_center_y)
      in (x, y, 0))"

definition dxf_cycloid_disk ::
    "real \<Rightarrow> int \<Rightarrow> real \<Rightarrow> real \<Rightarrow> real \<Rightarrow> real \<Rightarrow> real \<Rightarrow> real \<Rightarrow> error + np_point list" where
  "dxf_cycloid_disk e Ne R pin_d tol phi disk_center_x disk_center_y =
     (let points_per_lobe = 60;
          num_lobes = Ne - 1;
          total_points = points_per_lobe * num_lobes
      in case linspace 0 (2 * pi) total_points True of
           Inl err \<Rightarrow> Inl err
         | Inr t \<Rightarrow>
             if num_lobes + 1 = 0 then Inl ZeroDivisionError
             else
               (let rolling = (of_int num_lobes / of_int (num_lobes + 1)) * R;
                    stationary = R / of_int (num_lobes + 1)
                in if stationary = 0 then Inl ZeroDivisionError
                   else
                     (let pin_r = pin_d / 2 + tol
                      in if num_lobes = 0 then Inl ZeroDivisionError
                         else Inr (map (dxf_disk_sample rolling stationary e pin_r phi num_lobes
                                          disk_center_x disk_center_y) t))))"

record params =
  eccentricity :: real
  num_external_pins :: int
  num_output_pins :: int
  ring_diameter :: real
  pin_diameter :: real
  output_disk_diameter :: real
  output_pin_diameter :: real
  camshaft_diameter :: real
  tolerance :: real
  show_outer_ring :: bool
  outer_ring_width :: real

text \<open>The entities of the document handed to \<^verbatim>\<open>doc.saveas\<close>.\<close>

definition dxf_document :: "params \<Rightarrow> real \<Rightarrow> error + dxf_entities" where
  "dxf_document p phi =
     (let e = eccentricity p;
          Ne = num_external_pins p;
          No = num_output_pins p;
          ring_d = ring_diameter p;
          pin_d = pin_diameter p;
          disk_d = output_disk_diameter p;
          out_pin_d = output_pin_diameter p;
          cam_d = camshaft_diameter p;
          tol = tolerance p;
          show_ring = show_outer_ring p;
          ring_w = outer_ring_width p;
          R = ring_d / 2;
          Rd = disk_d / 2;
          disk_center_x = e * cos phi;
          disk_center_y = e * sin phi
      in case (if show_ring then dxf_outer_ring Ne R pin_d ring_w else Inr []) of
           Inl err \<Rightarrow> Inl err
         | Inr ring \<Rightarrow>
             (case dxf_cycloid_disk e Ne R pin_d tol phi disk_center_x disk_center_y of
                Inl err \<Rightarrow> Inl err
              | Inr spline_points \<Rightarrow>
                  Inr ([(CENTER_AXIS, Point (0, 0))]
                       @ dxf_pin_centers Ne R
                       @ ring
                       @ dxf_output_pins No Rd out_pin_d
                       @ dxf_output_holes No Rd out_pin_d e tol disk_center_x disk_center_y
                       @ dxf_camshaft cam_d e tol disk_center_x disk_center_y
                       @ [(CYCLOID_DISK, Spline spline_points True)])))"

text \<open>
  \<^verbatim>\<open>export_to_dxf\<close>: \<^verbatim>\<open>ImportError\<close> when \<^verbatim>\<open>ezdxf\<close> cannot be imported, the errors of
  the construction, \<^verbatim>\<open>OSError\<close> when \<^verbatim>\<open>doc.saveas\<close> cannot write; otherwise the saved
  entities and the return value \<^verbatim>\<open>True\<close>. The two environment facts are parameters.
\<close>

definition export_to_dxf :: "bool \<Rightarrow> bool \<Rightarrow> params \<Rightarrow> real \<Rightarrow> error + (dxf_entities \<times> bool)" where
  "export_to_dxf ezdxf_installed save_ok p phi =
     (if ezdxf_installed
      then (case dxf_document p phi of
              Inl err \<Rightarrow> Inl err
            | Inr doc \<Rightarrow> if save_ok then Inr (doc, True) else Inl OSError)
      else Inl ImportError)"

section \<open>The specification's formulas and auxiliary notions\<close>

text \<open>
  The disk outline as the specification words it: the trace of a point at distance \<open>e\<close> on a
  circle of radius \<open>r_c + r_s\<close>, offset by \<open>pinRadius + tolerance\<close> along the unit normal
  \<open>(-dya, dxa) / |(dxa, dya)|\<close>, rotated by \<open>-\<phi>/L\<close> and translated by the eccentricity vector.
  Where the derivative vanishes the offset is undefined (\<open>None\<close>).
\<close>

definition rotate2 :: "real \<Rightarrow> real \<times> real \<Rightarrow> real \<times> real" where
  "rotate2 a p = (fst p * cos a - snd p * sin a, fst p * sin a + snd p * cos a)"

definition translate2 :: "real \<times> real \<Rightarrow> real \<times> real \<Rightarrow> real \<times> real" where
  "translate2 v p = (fst p + fst v, snd p + snd v)"

definition spec_rolling_radius :: "int \<Rightarrow> real \<Rightarrow> real" where
  "spec_rolling_radius L D = of_int L / (of_int L + 1) * (D / 2)"

definition spec_stationary_radius :: "int \<Rightarrow> real \<Rightarrow> real" where
  "spec_stationary_radius L D = (D / 2) / (of_int L + 1)"

definition spec_trace :: "real \<Rightarrow> real \<Rightarrow> real \<Rightarrow> real \<Rightarrow> real \<times> real" where
  "spec_trace r_c r_s e t =
     ((r_c + r_s) * cos t - e * cos ((r_c + r_s) / r_s * t),
      (r_c + r_s) * sin t - e * sin ((r_c + r_s) / r_s * t))"

text \<open>The derivative of the trace with respect to \<open>t\<close>, term by term.\<close>

definition spec_trace_d :: "real \<Rightarrow> real \<Rightarrow> real \<Rightarrow> real \<Rightarrow> real \<times> real" where
  "spec_trace_d r_c r_s e t =
     (- (r_c + r_s) * sin t + e * ((r_c + r_s) / r_s) * sin ((r_c + r_s) / r_s * t),
      (r_c + r_s) * cos t - e * ((r_c + r_s) / r_s) * cos ((r_c + r_s) / r_s * t))"

definition spec_disk_point :: "real \<Rightarrow> int \<Rightarrow> real \<Rightarrow> real \<Rightarrow> real \<Rightarrow> real \<Rightarrow> real \<Rightarrow> (real \<times> real) option" where
  "spec_disk_point e N D pin_d phi tol t =
     (let L = N - 1;
          r_c = spec_rolling_radius L D;
          r_s = spec_stationary_radius L D;
          a = spec_trace r_c r_s e t;
          dxa = fst (spec_trace_d r_c r_s e t);
          dya = snd (spec_trace_d r_c r_s e t);
          m = sqrt (dxa\<^sup>2 + dya\<^sup>2)
      in if m = 0 then None
         else Some (translate2 (e * cos phi, e * sin phi)
                     (rotate2 (- phi / of_int L)
                        (translate2 ((pin_d / 2 + tol) * (- dya / m), (pin_d / 2 + tol) * (dxa / m)) a))))"

definition np_point_of :: "(real \<times> real) option \<Rightarrow> np_point" where
  "np_point_of p = (case p of None \<Rightarrow> (None, None, 0) | Some q \<Rightarrow> (Some (fst q), Some (snd q), 0))"

text \<open>The entities of a document that lie on a given layer, in document order.\<close>

definition entities_on :: "layer \<Rightarrow> dxf_entities \<Rightarrow> entity list" where
  "entities_on l doc = map snd (filter (\<lambda>le. fst le = l) doc)"

text \<open>A small parameter set used to exercise the export: 3 external pins on a ring of diameter 12.\<close>

definition example_params :: params where
  "example_params =
     \<lparr>eccentricity = 1, num_external_pins = 3, num_output_pins = 3, ring_diameter = 12,
      pin_diameter = 2, output_disk_diameter = 6, output_pin_diameter = 1, camshaft_diameter = 4,
      tolerance = 0, show_outer_ring = True, outer_ring_width = 1\<rparr>"

text \<open>A sample \<open>q\<close> lies on the circle about \<open>c\<close> of radius \<open>r\<close>, in the plane \<open>z = 0\<close>.\<close>

definition on_circle :: "real \<times> real \<Rightarrow> real \<Rightarrow> point3 \<Rightarrow> bool" where
  "on_circle c r q = ((fst q - fst c)\<^sup>2 + (fst (snd q) - snd c)\<^sup>2 = r\<^sup>2 \<and> snd (snd q) = 0)"

text \<open>The point at angle \<open>a\<close> on the circle about \<open>c\<close> of radius \<open>r\<close>, in the plane \<open>z = 0\<close>.\<close>

definition circle_point :: "real \<times> real \<Rightarrow> real \<Rightarrow> real \<Rightarrow> point3" where
  "circle_point c r a = (fst c + r * cos a, snd c + r * sin a, 0)"

text \<open>
  The center of output pin \<open>i\<close> before any motion: at angle \<open>2\<pi>\<cdot>i / numOutputPins\<close> on the circle
  of radius \<open>outputDiskDiameter / 2\<close>.
\<close>

definition spec_pin_center :: "real \<Rightarrow> int \<Rightarrow> nat \<Rightarrow> real \<times> real" where
  "spec_pin_center output_disk_d num_out i =
     (output_disk_d / 2 * cos (2 * pi * real i / of_int num_out),
      output_disk_d / 2 * sin (2 * pi * real i / of_int num_out))"


text \<open>
  The housing wall of the specification: pocket depth and clearance are both \<open>0.8\<cdot>pinRadius\<close>, and
  \<open>cos (N\<cdot>\<theta>)\<close> blends between \<open>ringRadius - pocketDepth\<close> and
  \<open>ringRadius - pocketDepth + (pocketDepth + clearance)\<close>.
\<close>

definition spec_housing_wall :: "real \<Rightarrow> real \<Rightarrow> int \<Rightarrow> real \<Rightarrow> real" where
  "spec_housing_wall ring_r pin_r N theta =
     (let pocket_depth = 0.8 * pin_r;
          clearance = 0.8 * pin_r
      in (ring_r - pocket_depth) * ((1 + cos (of_int N * theta)) / 2)
         + (ring_r - pocket_depth + (pocket_depth + clearance)) * ((1 - cos (of_int N * theta)) / 2))"


text \<open>
  The pin-intersection radius of the specification: the ray of direction \<open>\<theta>\<close> from the origin
  against the circle of the pin nearest in angle (\<open>\<theta>\<close> rounded to a multiple of the pin step).
  The pin center is projected onto the ray, and the near root of the quadratic is taken when it
  is positive; otherwise the radius is the number \<open>10\<^sup>9\<close>, which never wins the minimum.
\<close>

definition spec_pin_intersection :: "real \<Rightarrow> real \<Rightarrow> int \<Rightarrow> real \<Rightarrow> real" where
  "spec_pin_intersection ring_r pin_r N theta =
     (let step = 2 * pi / of_int N;
          a = of_int (py_round (theta / step)) * step;
          proj = ring_r * cos a * cos theta + ring_r * sin a * sin theta;
          disc = proj\<^sup>2 - (ring_r\<^sup>2 - pin_r\<^sup>2)
      in if 0 \<le> disc \<and> 0 < proj - sqrt disc then proj - sqrt disc else 1000000000)"

text \<open>
  A ring of diameter 80 with 4 pins and eccentricity 10 (all on the sliders): the stationary
  radius equals the eccentricity.
\<close>

definition degenerate_params :: params where
  "degenerate_params =
     \<lparr>eccentricity = 10, num_external_pins = 4, num_output_pins = 3, ring_diameter = 80,
      pin_diameter = 5, output_disk_diameter = 50, output_pin_diameter = 10, camshaft_diameter = 30,
      tolerance = 0, show_outer_ring = False, outer_ring_width = 15\<rparr>"

section \<open>Properties\<close>

subsection \<open>Phase periodicity of the disk profile\<close>

lemma cos_shift_lobes: "cos (phi + 2 * pi * of_int k) = cos phi"
  by (simp add: cos_add)

lemma sin_shift_lobes: "sin (phi + 2 * pi * of_int k) = sin phi"
  by (simp add: sin_add)

lemma rot_angle_shift:
  assumes "L \<noteq> 0"
  shows "- (phi + 2 * pi * of_int L) / of_int L = - phi / of_int L - 2 * pi"
  using assms by (simp add: field_simps)

lemma cycloid_sample_period:
  assumes "L \<noteq> 0"
  shows "cycloid_sample rc rs e r (phi + 2 * pi * of_int L) L t = cycloid_sample rc rs e r phi L t"
proof -
  have a: "- (phi + 2 * pi * of_int L) / of_int L = - phi / of_int L - 2 * pi"
    using assms by (rule rot_angle_shift)
  have c: "cos (- phi / of_int L - 2 * pi) = cos (- phi / of_int L)"
    using cos_periodic [of "- phi / of_int L - 2 * pi"] by simp
  have s: "sin (- phi / of_int L - 2 * pi) = sin (- phi / of_int L)"
    using sin_periodic [of "- phi / of_int L - 2 * pi"] by simp
  show ?thesis
    unfolding cycloid_sample_def a c s cos_shift_lobes sin_shift_lobes ..
qed

text \<open>
  Claim C8. Advancing the phase by \<open>2\<pi>\<cdot>L\<close>, with \<open>L = num_external_pins - 1\<close> lobes, gives
  the same result of \<^verbatim>\<open>cycloid_disk\<close>: the same curve, sample by sample, or the same error.
  The rotation \<open>-\<phi>/L\<close> changes by a full turn and the eccentricity vector by \<open>L\<close> full turns.
\<close>

theorem lobe_symmetry:
  "cycloid_disk e N D pd (phi + 2 * pi * of_int (N - 1)) tol = cycloid_disk e N D pd phi tol"
proof (cases "N - 1 = 0")
  case True
  then show ?thesis
    by (simp add: cycloid_disk_def cycloid_disk_pts_def Let_def split: sum.splits)
next
  case False
  then have p: "\<And>rc rs r t. cycloid_sample rc rs e r (phi + 2 * pi * of_int (N - 1)) (N - 1) t
                  = cycloid_sample rc rs e r phi (N - 1) t"
    by (rule cycloid_sample_period)
  show ?thesis
    unfolding cycloid_disk_def cycloid_disk_pts_def Let_def p by (rule refl)
qed

subsection \<open>The housing generator ignores the tolerance\<close>

text \<open>
  Claim C9. For all pin counts, diameters and ring widths and any two tolerances,
  \<^verbatim>\<open>outer_ring\<close> returns the same inner and outer profile (or the same error): the
  result does not depend on the tolerance.
\<close>

theorem outer_ring_tolerance_independent:
  "outer_ring num_pins ring_d pin_d ring_width t1 = outer_ring num_pins ring_d pin_d ring_width t2"
  by (simp add: outer_ring_def)

subsection \<open>The disk profile\<close>

lemma linspace_endpoint:
  assumes "1 < n"
  shows "linspace 0 b n True = Inr (map (\<lambda>i. real i * (b / of_int (n - 1))) [0..<nat n])"
  using assms by (simp add: linspace_def Let_def)

lemma spec_radii:
  "of_int (N - 1) / of_int (N - 1 + 1) * (D / 2) = spec_rolling_radius (N - 1) D"
  "D / 2 / of_int (N - 1 + 1) = spec_stationary_radius (N - 1) D"
  by (simp_all add: spec_rolling_radius_def spec_stationary_radius_def)

lemma spec_stationary_radius_nonzero:
  assumes "N \<noteq> 0" "D \<noteq> 0"
  shows "spec_stationary_radius (N - 1) D \<noteq> 0"
  using assms by (simp add: spec_stationary_radius_def)

lemma cycloid_disk_pts_ok:
  assumes "2 \<le> N" "D \<noteq> 0" "1 < ppl * (N - 1)"
  shows "cycloid_disk_pts ppl e N D pd phi tol =
           Inr [map (cycloid_sample (spec_rolling_radius (N - 1) D) (spec_stationary_radius (N - 1) D) e
                       (effective_pin_radius pd tol) phi (N - 1))
                  (map (\<lambda>i. real i * (2 * pi / of_int (ppl * (N - 1) - 1))) [0..<nat (ppl * (N - 1))])]"
proof -
  have 1: "(N - 1 + 1 = 0) = False" using assms by simp
  have 2: "linspace 0 (2 * pi) (ppl * (N - 1)) True
             = Inr (map (\<lambda>i. real i * (2 * pi / of_int (ppl * (N - 1) - 1))) [0..<nat (ppl * (N - 1))])"
    using assms(3) by (rule linspace_endpoint)
  have 3: "(spec_stationary_radius (N - 1) D = 0) = False"
    using spec_stationary_radius_nonzero [of N D] assms by simp
  have 4: "(N - 1 = 0) = False" using assms by simp
  show ?thesis
    unfolding cycloid_disk_pts_def Let_def spec_radii 1 2 3 4 by simp
qed

lemma np_offset_rotate_x:
  "np_add (np_sub (np_mul (np_add (Some xa) (np_mul (np_div r m) (Some (- dya)))) (Some c))
                  (np_mul (np_add (Some ya) (np_mul (np_div r m) (Some dxa))) (Some s)))
          (Some tx)
   = (if m = 0 then None else Some ((xa + r * (- dya / m)) * c - (ya + r * (dxa / m)) * s + tx))"
  by (simp add: np_add_def np_sub_def np_mul_def np_div_def)

lemma np_offset_rotate_y:
  "np_add (np_add (np_mul (np_add (Some xa) (np_mul (np_div r m) (Some (- dya)))) (Some s))
                  (np_mul (np_add (Some ya) (np_mul (np_div r m) (Some dxa))) (Some c)))
          (Some ty)
   = (if m = 0 then None else Some ((xa + r * (- dya / m)) * s + (ya + r * (dxa / m)) * c + ty))"
  by (simp add: np_add_def np_sub_def np_mul_def np_div_def)

lemma spec_trace_d_code:
  "spec_trace_d r_c r_s e t = (disk_dxa r_c r_s e t, disk_dya r_c r_s e t)"
  by (simp add: spec_trace_d_def disk_dxa_def disk_dya_def algebra_simps)

lemma cycloid_sample_spec:
  "cycloid_sample (spec_rolling_radius (N - 1) D) (spec_stationary_radius (N - 1) D) e
      (effective_pin_radius pd tol) phi (N - 1) t
   = np_point_of (spec_disk_point e N D pd phi tol t)"
  unfolding cycloid_sample_def spec_disk_point_def Let_def disk_xd_def disk_yd_def
    np_offset_rotate_x np_offset_rotate_y spec_trace_d_code fst_conv snd_conv
  by (simp add: np_point_of_def effective_pin_radius_def rotate2_def translate2_def
        spec_trace_def disk_xa_def disk_ya_def)

lemma trochoid_x_derivative:
  "((\<lambda>s. a * cos s - e * cos (a / r * s)) has_real_derivative
      a * (- sin t + (e / r) * sin (a / r * t))) (at t)"
proof -
  define k where "k = a / r"
  have "((\<lambda>s. a * cos s - e * cos (k * s)) has_real_derivative
          (- a * sin t + e * k * sin (k * t))) (at t)"
    by (auto intro!: derivative_eq_intros)
  moreover have "- a * sin t + e * k * sin (k * t) = a * (- sin t + (e / r) * sin (k * t))"
    by (simp add: k_def algebra_simps)
  ultimately show ?thesis
    unfolding k_def by simp
qed

lemma trochoid_y_derivative:
  "((\<lambda>s. a * sin s - e * sin (a / r * s)) has_real_derivative
      a * (cos t - (e / r) * cos (a / r * t))) (at t)"
proof -
  define k where "k = a / r"
  have "((\<lambda>s. a * sin s - e * sin (k * s)) has_real_derivative
          (a * cos t - e * k * cos (k * t))) (at t)"
    by (auto intro!: derivative_eq_intros)
  moreover have "a * cos t - e * k * cos (k * t) = a * (cos t - (e / r) * cos (k * t))"
    by (simp add: k_def algebra_simps)
  ultimately show ?thesis
    unfolding k_def by simp
qed

lemma spec_trace_derivative:
  "((\<lambda>s. fst (spec_trace r_c r_s e s)) has_real_derivative fst (spec_trace_d r_c r_s e t)) (at t)"
  "((\<lambda>s. snd (spec_trace r_c r_s e s)) has_real_derivative snd (spec_trace_d r_c r_s e t)) (at t)"
  unfolding spec_trace_d_code unfolding spec_trace_def disk_dxa_def disk_dya_def fst_conv snd_conv
  by (rule trochoid_x_derivative, rule trochoid_y_derivative)

lemma trochoid_derivative_nonzero:
  assumes a: "rc + rs \<noteq> 0" and k: "(e / rs)\<^sup>2 \<noteq> 1"
  shows "(disk_dxa rc rs e t)\<^sup>2 + (disk_dya rc rs e t)\<^sup>2 \<noteq> 0"
proof
  define u where "u = (rc + rs) / rs * t"
  assume "(disk_dxa rc rs e t)\<^sup>2 + (disk_dya rc rs e t)\<^sup>2 = 0"
  then have "disk_dxa rc rs e t = 0" and "disk_dya rc rs e t = 0"
    by (simp_all add: sum_power2_eq_zero_iff)
  then have s: "sin t = (e / rs) * sin u" and c: "cos t = (e / rs) * cos u"
    using a by (simp_all add: disk_dxa_def disk_dya_def u_def)
  have "1 = (sin t)\<^sup>2 + (cos t)\<^sup>2" by simp
  also have "\<dots> = (e / rs)\<^sup>2 * ((sin u)\<^sup>2 + (cos u)\<^sup>2)"
    unfolding s c by (simp only: power_mult_distrib distrib_left)
  also have "\<dots> = (e / rs)\<^sup>2" by simp
  finally show False using k by simp
qed

lemma spec_disk_point_defined:
  assumes "(disk_dxa (spec_rolling_radius (N - 1) D) (spec_stationary_radius (N - 1) D) e t)\<^sup>2
           + (disk_dya (spec_rolling_radius (N - 1) D) (spec_stationary_radius (N - 1) D) e t)\<^sup>2 \<noteq> 0"
  shows "\<exists>x y. spec_disk_point e N D pd phi tol t = Some (x, y)"
proof -
  have "sqrt ((disk_dxa (spec_rolling_radius (N - 1) D) (spec_stationary_radius (N - 1) D) e t)\<^sup>2
           + (disk_dya (spec_rolling_radius (N - 1) D) (spec_stationary_radius (N - 1) D) e t)\<^sup>2) \<noteq> 0"
    using assms by simp
  then show ?thesis
    unfolding spec_disk_point_def Let_def spec_trace_d_code fst_conv snd_conv
    by (simp add: translate2_def rotate2_def)
qed

lemma spec_radius_ratio:
  assumes "N \<noteq> 0" "D \<noteq> 0"
  shows "(spec_rolling_radius (N - 1) D + spec_stationary_radius (N - 1) D)
           / spec_stationary_radius (N - 1) D = of_int N"
  using assms by (simp add: spec_rolling_radius_def spec_stationary_radius_def field_simps)

lemma cos_int_turns: "cos (of_int n * (2 * pi)) = 1"
  using cos_int_2pin [of n] by (simp add: mult.commute)

lemma sin_int_turns: "sin (of_int n * (2 * pi)) = 0"
  using sin_int_2pin [of n] by (simp add: mult.commute)

lemma cycloid_sample_full_turn:
  assumes "(rc + rs) / rs = of_int n"
  shows "cycloid_sample rc rs e r phi L (2 * pi) = cycloid_sample rc rs e r phi L 0"
  unfolding cycloid_sample_def disk_xd_def disk_yd_def disk_xa_def disk_ya_def disk_dxa_def disk_dya_def
    assms cos_int_turns sin_int_turns
  by simp

lemma grid_last:
  assumes "1 < n"
  shows "last (map (\<lambda>i. real i * (b / of_int (n - 1))) [0..<nat n]) = b"
proof -
  have ne: "[0..<nat n] \<noteq> []" using assms by simp
  have l: "last [0..<nat n] = nat n - 1" using assms by (simp add: last_upt)
  have r: "real (nat n - 1) = of_int (n - 1)" using assms by (simp add: of_nat_diff)
  show ?thesis
    using assms by (simp add: last_map [OF ne] l r)
qed

lemma grid_hd:
  assumes "1 < n"
  shows "hd (map (\<lambda>i. real i * (b / of_int (n - 1))) [0..<nat n]) = 0"
proof -
  have ne: "[0..<nat n] \<noteq> []" using assms by simp
  show ?thesis
    using assms by (simp add: hd_map [OF ne] hd_upt)
qed

text \<open>
  Claim C1, as the code has it. For \<open>num_external_pins \<ge> 3\<close>, a nonzero ring diameter and a
  derivative \<open>(dxa, dya)\<close> that vanishes at no sample, \<^verbatim>\<open>cycloid_disk\<close> returns exactly one
  curve of \<open>1500 \<cdot> L\<close> samples, \<open>L = num_external_pins - 1\<close>. Sample \<open>i\<close> is finite and is the
  specification's offset, rotated and translated point at \<open>t = 2\<pi>\<cdot>i / (1500\<cdot>L - 1)\<close>, so that \<open>t\<close>
  runs once from \<open>0\<close> to \<open>2\<pi>\<close> over all lobes; the first and the last sample are the same finite
  point; and the specification's \<open>(dxa, dya)\<close> is the derivative of the trace.
\<close>

theorem cycloid_disk_profile:
  assumes "3 \<le> N" and "D \<noteq> 0"
    and "\<forall>i < nat (1500 * (N - 1)).
           (disk_dxa (spec_rolling_radius (N - 1) D) (spec_stationary_radius (N - 1) D) e
              (real i * (2 * pi / of_int (1500 * (N - 1) - 1))))\<^sup>2
           + (disk_dya (spec_rolling_radius (N - 1) D) (spec_stationary_radius (N - 1) D) e
              (real i * (2 * pi / of_int (1500 * (N - 1) - 1))))\<^sup>2 \<noteq> 0"
  shows "\<exists>c. cycloid_disk e N D pin_d phi tol = Inr [c]
           \<and> length c = nat (1500 * (N - 1))
           \<and> (\<forall>i<length c. \<exists>x y.
                 spec_disk_point e N D pin_d phi tol (real i * (2 * pi / of_int (1500 * (N - 1) - 1)))
                   = Some (x, y)
                 \<and> c ! i = (Some x, Some y, 0))
           \<and> hd c = last c
           \<and> (\<exists>x y. hd c = (Some x, Some y, 0))
           \<and> (\<forall>t. ((\<lambda>s. fst (spec_trace (spec_rolling_radius (N - 1) D) (spec_stationary_radius (N - 1) D) e s))
                      has_real_derivative
                        fst (spec_trace_d (spec_rolling_radius (N - 1) D) (spec_stationary_radius (N - 1) D) e t))
                       (at t)
                  \<and> ((\<lambda>s. snd (spec_trace (spec_rolling_radius (N - 1) D) (spec_stationary_radius (N - 1) D) e s))
                      has_real_derivative
                        snd (spec_trace_d (spec_rolling_radius (N - 1) D) (spec_stationary_radius (N - 1) D) e t))
                       (at t))"
proof -
  define n where "n = 1500 * (N - 1)"
  define grid where "grid = map (\<lambda>i. real i * (2 * pi / of_int (n - 1))) [0..<nat n]"
  define f where "f = cycloid_sample (spec_rolling_radius (N - 1) D) (spec_stationary_radius (N - 1) D) e
                        (effective_pin_radius pin_d tol) phi (N - 1)"
  define c where "c = map f grid"
  have n1: "1 < n" using assms(1) by (simp add: n_def)
  have N0: "N \<noteq> 0" and N2: "2 \<le> N" using assms(1) by simp_all
  have res: "cycloid_disk e N D pin_d phi tol = Inr [c]"
    unfolding cycloid_disk_def c_def f_def grid_def n_def
    by (rule cycloid_disk_pts_ok) (use assms(1,2) in simp_all)
  have len: "length c = nat n"
    by (simp add: c_def grid_def)
  have f_spec: "f t = np_point_of (spec_disk_point e N D pin_d phi tol t)" for t
    unfolding f_def by (rule cycloid_sample_spec)
  have nth: "\<exists>x y. spec_disk_point e N D pin_d phi tol (real i * (2 * pi / of_int (n - 1))) = Some (x, y)
                 \<and> c ! i = (Some x, Some y, 0)"
    if i: "i < length c" for i
  proof -
    from i have "i < nat (1500 * (N - 1))" by (simp add: len n_def)
    with assms(3) have
      "(disk_dxa (spec_rolling_radius (N - 1) D) (spec_stationary_radius (N - 1) D) e
          (real i * (2 * pi / of_int (n - 1))))\<^sup>2
       + (disk_dya (spec_rolling_radius (N - 1) D) (spec_stationary_radius (N - 1) D) e
          (real i * (2 * pi / of_int (n - 1))))\<^sup>2 \<noteq> 0"
      unfolding n_def by blast
    from spec_disk_point_defined [OF this, of pin_d phi tol] obtain x y
      where p: "spec_disk_point e N D pin_d phi tol (real i * (2 * pi / of_int (n - 1))) = Some (x, y)"
      by blast
    have ci: "c ! i = f (real i * (2 * pi / of_int (n - 1)))"
      using i by (simp add: c_def grid_def)
    have "f (real i * (2 * pi / of_int (n - 1))) = (Some x, Some y, 0)"
      unfolding f_spec p by (simp add: np_point_of_def)
    with ci have "c ! i = (Some x, Some y, 0)" by (rule trans)
    with p show ?thesis by blast
  qed
  have gne: "grid \<noteq> []" using n1 by (simp add: grid_def)
  have "hd c = f (hd grid)" unfolding c_def by (rule hd_map [OF gne])
  also have "hd grid = 0" unfolding grid_def by (rule grid_hd [OF n1])
  also have "f 0 = f (2 * pi)"
    unfolding f_def
    by (rule cycloid_sample_full_turn [symmetric, OF spec_radius_ratio [OF N0 assms(2)]])
  also have "2 * pi = last grid" unfolding grid_def by (rule grid_last [OF n1, symmetric])
  also have "f (last grid) = last c" unfolding c_def by (rule last_map [OF gne, symmetric])
  finally have closed: "hd c = last c" .
  have cne: "c \<noteq> []" using gne by (simp add: c_def)
  have "0 < length c" using cne by simp
  from nth [OF this] obtain x y where "c ! 0 = (Some x, Some y, 0)" by blast
  then have fin: "\<exists>x y. hd c = (Some x, Some y, 0)"
    using cne by (simp add: hd_conv_nth)
  show ?thesis
    using res len nth closed fin spec_trace_derivative unfolding n_def by blast
qed

lemma sqrt_nine: "sqrt 9 = 3"
  using real_sqrt_abs [of 3] by simp

theorem cycloid_disk_profile_witness:
  "\<exists>c. cycloid_disk 1 3 12 2 0 0 = Inr [c] \<and> length c = 3000 \<and> c ! 0 = (Some 5, Some 0, 0)
        \<and> hd c = last c"
proof -
  have N: "(3 :: int) \<le> 3" and D: "(12 :: real) \<noteq> 0" by simp_all
  have nz: "\<forall>i < nat (1500 * (3 - 1)).
           (disk_dxa (spec_rolling_radius (3 - 1) 12) (spec_stationary_radius (3 - 1) 12) 1
              (real i * (2 * pi / of_int (1500 * (3 - 1) - 1))))\<^sup>2
           + (disk_dya (spec_rolling_radius (3 - 1) 12) (spec_stationary_radius (3 - 1) 12) 1
              (real i * (2 * pi / of_int (1500 * (3 - 1) - 1))))\<^sup>2 \<noteq> 0"
    by (intro allI impI trochoid_derivative_nonzero)
       (simp_all add: spec_rolling_radius_def spec_stationary_radius_def power2_eq_square)
  obtain c where c: "cycloid_disk 1 3 12 2 0 0 = Inr [c]" "length c = nat (1500 * (3 - 1))"
      "\<forall>i<length c. \<exists>x y.
          spec_disk_point 1 3 12 2 0 0 (real i * (2 * pi / of_int (1500 * (3 - 1) - 1))) = Some (x, y)
          \<and> c ! i = (Some x, Some y, 0)"
      "hd c = last c"
    using cycloid_disk_profile [OF N D nz, of 2 0 0] by blast
  have p: "spec_disk_point 1 3 12 2 0 0 0 = Some (5, 0)"
    by (simp add: spec_disk_point_def Let_def spec_rolling_radius_def
          spec_stationary_radius_def spec_trace_def spec_trace_d_def rotate2_def
          translate2_def sqrt_nine)
  have "\<exists>x y. spec_disk_point 1 3 12 2 0 0 0 = Some (x, y) \<and> c ! 0 = (Some x, Some y, 0)"
    using c(2) c(3) [rule_format, of 0] by simp
  then have "c ! 0 = (Some 5, Some 0, 0)"
    by (simp add: p)
  then show ?thesis using c(1,2,4) by simp
qed

text \<open>
  A ring of diameter 80 with 4 pins and eccentricity 10 meets every constraint of the parameter
  set. The derivative vanishes at \<open>t = 0\<close>, and the first sample of the returned curve is
  non-finite: it is no point of the offset curve, and the curve is no closed loop of points.
\<close>

theorem cycloid_disk_profile_counterexample:
  "(3 :: int) \<le> 4 \<and> (80 :: real) \<noteq> 0
   \<and> \<not> isl (cycloid_disk 10 4 80 5 0 0)
   \<and> fst (hd (hd (projr (cycloid_disk 10 4 80 5 0 0)))) = None
   \<and> fst (snd (hd (hd (projr (cycloid_disk 10 4 80 5 0 0))))) = None"
proof -
  have res: "cycloid_disk 10 4 80 5 0 0 =
           Inr [map (cycloid_sample (spec_rolling_radius (4 - 1) 80) (spec_stationary_radius (4 - 1) 80) 10
                       (effective_pin_radius 5 0) 0 (4 - 1))
                  (map (\<lambda>i. real i * (2 * pi / of_int (1500 * (4 - 1) - 1))) [0..<nat (1500 * (4 - 1))])]"
    unfolding cycloid_disk_def by (rule cycloid_disk_pts_ok) simp_all
  have s: "cycloid_sample (spec_rolling_radius 3 80) (spec_stationary_radius 3 80) 10 r 0 3 0
             = (None, None, 0)" for r
    by (simp add: cycloid_sample_def disk_xd_def disk_yd_def disk_dxa_def disk_dya_def Let_def
          spec_rolling_radius_def spec_stationary_radius_def np_div_def np_mul_def np_add_def
          np_sub_def)
  have ne: "[0..<nat (1500 * (4 - 1))] \<noteq> []" by simp
  have h: "hd (hd (projr (cycloid_disk 10 4 80 5 0 0))) = (None, None, 0)"
    unfolding res by (simp add: hd_map [OF ne] hd_map s)
  show ?thesis using h by (simp add: res)
qed

subsection \<open>The disk inside the DXF export\<close>

lemma dxf_disk_sample_eq:
  "dxf_disk_sample rolling stationary e (pin_d / 2 + tol) phi L (e * cos phi) (e * sin phi) t
     = cycloid_sample rolling stationary e (effective_pin_radius pin_d tol) phi L t"
  unfolding dxf_disk_sample_def cycloid_sample_def disk_xd_def disk_yd_def disk_xa_def disk_ya_def
    disk_dxa_def disk_dya_def effective_pin_radius_def Let_def
  by (rule refl)

lemma dxf_cycloid_disk_eq:
  assumes "Ne \<noteq> 0"
  shows "map_sum id (\<lambda>c. [c])
           (dxf_cycloid_disk e Ne (ring_d / 2) pin_d tol phi (e * cos phi) (e * sin phi))
         = cycloid_disk_pts 60 e Ne ring_d pin_d phi tol"
proof -
  have 1: "(Ne - 1 + 1 = 0) = False" using assms by simp
  show ?thesis
    unfolding dxf_cycloid_disk_def cycloid_disk_pts_def Let_def 1 dxf_disk_sample_eq
    by (simp split: sum.splits)
qed

lemma linspace_negative: "n < 0 \<Longrightarrow> linspace a b n ep = Inl ValueError"
  by (simp add: linspace_def)

lemma dxf_cycloid_disk_no_pins:
  "dxf_cycloid_disk e 0 R pin_d tol phi cx cy = Inl ValueError"
  by (simp add: dxf_cycloid_disk_def Let_def linspace_negative)

lemma dxf_cycloid_disk_Inr:
  assumes "dxf_cycloid_disk e Ne (ring_d / 2) pin_d tol phi (e * cos phi) (e * sin phi) = Inr c"
  shows "cycloid_disk_pts 60 e Ne ring_d pin_d phi tol = Inr [c]"
proof -
  have "Ne \<noteq> 0" using assms dxf_cycloid_disk_no_pins by auto
  from dxf_cycloid_disk_eq [OF this, of e ring_d pin_d tol phi] show ?thesis
    by (simp add: assms)
qed

lemma dxf_cycloid_disk_ok:
  assumes "2 \<le> Ne" "ring_d \<noteq> 0"
  shows "dxf_cycloid_disk e Ne (ring_d / 2) pin_d tol phi (e * cos phi) (e * sin phi)
         = Inr (map (cycloid_sample (spec_rolling_radius (Ne - 1) ring_d)
                       (spec_stationary_radius (Ne - 1) ring_d) e
                       (effective_pin_radius pin_d tol) phi (Ne - 1))
                  (map (\<lambda>i. real i * (2 * pi / of_int (60 * (Ne - 1) - 1))) [0..<nat (60 * (Ne - 1))]))"
proof -
  have n: "1 < 60 * (Ne - 1)" and N0: "Ne \<noteq> 0" using assms by simp_all
  from cycloid_disk_pts_ok [OF assms n, of e pin_d phi tol]
    dxf_cycloid_disk_eq [OF N0, of e ring_d pin_d tol phi]
  show ?thesis
    by (cases "dxf_cycloid_disk e Ne (ring_d / 2) pin_d tol phi (e * cos phi) (e * sin phi)") simp_all
qed



subsection \<open>The layers of the exported document\<close>

lemma linspace_open:
  assumes "0 \<le> n"
  shows "linspace 0 b n False = Inr (map (\<lambda>i. real i * (b / of_int n)) [0..<nat n])"
proof (cases "n = 0")
  case True
  then show ?thesis by (simp add: linspace_def)
next
  case False
  with assms have "0 < n" by simp
  then show ?thesis by (simp add: linspace_def Let_def)
qed

lemma dxf_outer_ring_ok:
  assumes "0 \<le> Ne"
  shows "dxf_outer_ring Ne R pin_d ring_w =
           Inr [(OUTER_RING,
                 LWPolyline (map (\<lambda>theta. (dxf_final_r R (pin_d / 2) Ne theta * cos theta,
                                             dxf_final_r R (pin_d / 2) Ne theta * sin theta))
                               (map (\<lambda>i. real i * (2 * pi / of_int (Ne * 30))) [0..<nat (Ne * 30)]))
                   True),
                (OUTER_RING, Circle (0, 0) (R + ring_w))]"
proof -
  have "0 \<le> Ne * 30" using assms by simp
  from linspace_open [OF this, of "2 * pi"] show ?thesis
    by (simp add: dxf_outer_ring_def Let_def)
qed

lemma entities_on_append: "entities_on l (xs @ ys) = entities_on l xs @ entities_on l ys"
  by (simp add: entities_on_def)

lemma entities_on_Cons:
  "entities_on l (x # xs) = (if fst x = l then snd x # entities_on l xs else entities_on l xs)"
  by (simp add: entities_on_def)

lemma entities_on_Nil: "entities_on l [] = []"
  by (simp add: entities_on_def)

lemma entities_on_pin_centers:
  "entities_on l (dxf_pin_centers Ne R) = (if l = PIN_CENTERS then map snd (dxf_pin_centers Ne R) else [])"
  by (auto simp: entities_on_def dxf_pin_centers_def Let_def filter_map o_def)

lemma entities_on_output_pins:
  "entities_on l (dxf_output_pins No Rd d) = (if l = OUTPUT_PINS then map snd (dxf_output_pins No Rd d) else [])"
  by (auto simp: entities_on_def dxf_output_pins_def Let_def filter_map o_def)

lemma entities_on_output_holes:
  "entities_on l (dxf_output_holes No Rd d e tol cx cy)
     = (if l = OUTPUT_HOLES then map snd (dxf_output_holes No Rd d e tol cx cy) else [])"
  by (auto simp: entities_on_def dxf_output_holes_def Let_def filter_map o_def)

lemma dxf_document_Inr:
  assumes "dxf_document p phi = Inr doc"
  obtains ring c where
    "(if show_outer_ring p
      then dxf_outer_ring (num_external_pins p) (ring_diameter p / 2) (pin_diameter p) (outer_ring_width p)
      else Inr []) = Inr ring"
    "dxf_cycloid_disk (eccentricity p) (num_external_pins p) (ring_diameter p / 2) (pin_diameter p)
       (tolerance p) phi (eccentricity p * cos phi) (eccentricity p * sin phi) = Inr c"
    "doc = [(CENTER_AXIS, Point (0, 0))]
           @ dxf_pin_centers (num_external_pins p) (ring_diameter p / 2)
           @ ring
           @ dxf_output_pins (num_output_pins p) (output_disk_diameter p / 2) (output_pin_diameter p)
           @ dxf_output_holes (num_output_pins p) (output_disk_diameter p / 2) (output_pin_diameter p)
               (eccentricity p) (tolerance p) (eccentricity p * cos phi) (eccentricity p * sin phi)
           @ dxf_camshaft (camshaft_diameter p) (eccentricity p) (tolerance p)
               (eccentricity p * cos phi) (eccentricity p * sin phi)
           @ [(CYCLOID_DISK, Spline c True)]"
  using assms unfolding dxf_document_def Let_def
  by (auto split: sum.splits)

lemma export_to_dxf_Inr:
  assumes "export_to_dxf inst ok p phi = Inr (doc, b)"
  shows "inst \<and> ok \<and> b \<and> dxf_document p phi = Inr doc"
  using assms by (auto simp: export_to_dxf_def split: if_splits sum.splits)

lemma dxf_outer_ring_layers:
  assumes "(if sh then dxf_outer_ring Ne R pin_d w else Inr []) = Inr ring"
  shows "entities_on l ring = (if l = OUTER_RING then map snd ring else [])"
proof (cases sh)
  case False
  with assms show ?thesis by (auto simp: entities_on_def)
next
  case True
  with assms have r: "dxf_outer_ring Ne R pin_d w = Inr ring" by simp
  have "0 \<le> Ne"
  proof (rule ccontr)
    assume "\<not> 0 \<le> Ne"
    then have "Ne * 30 < 0" by simp
    then have "dxf_outer_ring Ne R pin_d w = Inl ValueError"
      by (simp add: dxf_outer_ring_def Let_def linspace_negative)
    with r show False by simp
  qed
  from dxf_outer_ring_ok [OF this, of R pin_d w] r show ?thesis
    by (auto simp: entities_on_def)
qed

lemma dxf_document_ok:
  assumes "2 \<le> num_external_pins p" and "ring_diameter p \<noteq> 0"
  shows "\<exists>ring c.
           dxf_document p phi =
             Inr ([(CENTER_AXIS, Point (0, 0))]
                  @ dxf_pin_centers (num_external_pins p) (ring_diameter p / 2)
                  @ ring
                  @ dxf_output_pins (num_output_pins p) (output_disk_diameter p / 2) (output_pin_diameter p)
                  @ dxf_output_holes (num_output_pins p) (output_disk_diameter p / 2) (output_pin_diameter p)
                      (eccentricity p) (tolerance p) (eccentricity p * cos phi) (eccentricity p * sin phi)
                  @ dxf_camshaft (camshaft_diameter p) (eccentricity p) (tolerance p)
                      (eccentricity p * cos phi) (eccentricity p * sin phi)
                  @ [(CYCLOID_DISK, Spline c True)])
           \<and> (if show_outer_ring p
                then dxf_outer_ring (num_external_pins p) (ring_diameter p / 2) (pin_diameter p)
                       (outer_ring_width p)
                else Inr []) = Inr ring
           \<and> length ring = (if show_outer_ring p then 2 else 0)
           \<and> length c = nat (60 * (num_external_pins p - 1))"
proof -
  have 0: "0 \<le> num_external_pins p" using assms(1) by simp
  note ring = dxf_outer_ring_ok [OF 0, of "ring_diameter p / 2" "pin_diameter p" "outer_ring_width p"]
  note disk = dxf_cycloid_disk_ok [OF assms, of "eccentricity p" "pin_diameter p" "tolerance p" phi]
  show ?thesis
    unfolding dxf_document_def Let_def disk ring
    by (cases "show_outer_ring p") simp_all
qed

text \<open>
  Claim C5. Whenever the export succeeds, the one entity on layer \<^verbatim>\<open>CYCLOID_DISK\<close> is the closed
  spline through exactly the curve that the display generator's computation yields with 60
  instead of 1500 points per lobe: same offset, rotation, translation and effective pin radius,
  sample by sample.
\<close>

theorem dxf_disk_is_display_disk:
  assumes "export_to_dxf inst ok p phi = Inr (doc, b)"
  shows "\<exists>c. cycloid_disk_pts 60 (eccentricity p) (num_external_pins p) (ring_diameter p)
                 (pin_diameter p) phi (tolerance p) = Inr [c]
           \<and> entities_on CYCLOID_DISK doc = [Spline c True]
           \<and> cycloid_disk (eccentricity p) (num_external_pins p) (ring_diameter p)
                 (pin_diameter p) phi (tolerance p)
               = cycloid_disk_pts 1500 (eccentricity p) (num_external_pins p) (ring_diameter p)
                 (pin_diameter p) phi (tolerance p)"
proof -
  from export_to_dxf_Inr [OF assms] have d: "dxf_document p phi = Inr doc" by simp
  from d obtain ring c where
    ring: "(if show_outer_ring p
      then dxf_outer_ring (num_external_pins p) (ring_diameter p / 2) (pin_diameter p) (outer_ring_width p)
      else Inr []) = Inr ring"
    and c: "dxf_cycloid_disk (eccentricity p) (num_external_pins p) (ring_diameter p / 2) (pin_diameter p)
       (tolerance p) phi (eccentricity p * cos phi) (eccentricity p * sin phi) = Inr c"
    and doc: "doc = [(CENTER_AXIS, Point (0, 0))]
           @ dxf_pin_centers (num_external_pins p) (ring_diameter p / 2)
           @ ring
           @ dxf_output_pins (num_output_pins p) (output_disk_diameter p / 2) (output_pin_diameter p)
           @ dxf_output_holes (num_output_pins p) (output_disk_diameter p / 2) (output_pin_diameter p)
               (eccentricity p) (tolerance p) (eccentricity p * cos phi) (eccentricity p * sin phi)
           @ dxf_camshaft (camshaft_diameter p) (eccentricity p) (tolerance p)
               (eccentricity p * cos phi) (eccentricity p * sin phi)
           @ [(CYCLOID_DISK, Spline c True)]"
    by (rule dxf_document_Inr)
  have 1: "cycloid_disk_pts 60 (eccentricity p) (num_external_pins p) (ring_diameter p)
             (pin_diameter p) phi (tolerance p) = Inr [c]"
    using c by (rule dxf_cycloid_disk_Inr)
  have 2: "entities_on CYCLOID_DISK doc = [Spline c True]"
    unfolding doc
    by (simp add: entities_on_append entities_on_Cons entities_on_Nil entities_on_pin_centers
          entities_on_output_pins entities_on_output_holes dxf_outer_ring_layers [OF ring]
          dxf_camshaft_def)
  show ?thesis using 1 2 by (simp add: cycloid_disk_def)
qed



theorem dxf_disk_is_display_disk_witness:
  "\<exists>doc c. export_to_dxf True True example_params 0 = Inr (doc, True)
     \<and> cycloid_disk_pts 60 1 3 12 2 0 0 = Inr [c]
     \<and> entities_on CYCLOID_DISK doc = [Spline c True]"
proof -
  obtain ring c where "dxf_document example_params 0 =
             Inr ([(CENTER_AXIS, Point (0, 0))]
                  @ dxf_pin_centers (num_external_pins example_params) (ring_diameter example_params / 2)
                  @ ring
                  @ dxf_output_pins (num_output_pins example_params) (output_disk_diameter example_params / 2) (output_pin_diameter example_params)
                  @ dxf_output_holes (num_output_pins example_params) (output_disk_diameter example_params / 2) (output_pin_diameter example_params)
                      (eccentricity example_params) (tolerance example_params) (eccentricity example_params * cos 0) (eccentricity example_params * sin 0)
                  @ dxf_camshaft (camshaft_diameter example_params) (eccentricity example_params) (tolerance example_params)
                      (eccentricity example_params * cos 0) (eccentricity example_params * sin 0)
                  @ [(CYCLOID_DISK, Spline c True)])"
    using dxf_document_ok [of example_params 0] by (auto simp: example_params_def)
  then obtain doc where e: "export_to_dxf True True example_params 0 = Inr (doc, True)"
    by (simp add: export_to_dxf_def)
  from dxf_disk_is_display_disk [OF e] e show ?thesis
    by (auto simp: example_params_def)
qed

subsection \<open>A non-positive eccentric-shaft radius\<close>



lemma export_to_dxf_ok:
  assumes "2 \<le> num_external_pins p" and "ring_diameter p \<noteq> 0"
  shows "\<exists>doc. export_to_dxf True True p phi = Inr (doc, True)"
  using dxf_document_ok [OF assms, of phi] by (auto simp: export_to_dxf_def)

lemma sin_cos_circle: "(r * cos t)\<^sup>2 + (r * sin t)\<^sup>2 = r\<^sup>2" for r t :: real
proof -
  have "(r * cos t)\<^sup>2 + (r * sin t)\<^sup>2 = r\<^sup>2 * ((cos t)\<^sup>2 + (sin t)\<^sup>2)"
    by (simp only: power_mult_distrib distrib_left)
  also have "\<dots> = r\<^sup>2" by simp
  finally show ?thesis .
qed

lemma on_circle_sample: "on_circle (cx, cy) r (r * cos t + cx, r * sin t + cy, 0)"
  by (simp add: on_circle_def sin_cos_circle)

lemma eccentric_camshaft_ok:
  "eccentric_camshaft e cam phi =
     Inr (map (\<lambda>t. (shaft_radius e cam * cos t + e * cos phi, shaft_radius e cam * sin t + e * sin phi, 0))
            (map (\<lambda>i. real i * (2 * pi / of_int (200 - 1))) [0..<nat 200]))"
  unfolding eccentric_camshaft_def
  by (subst linspace_endpoint) simp_all

text \<open>
  Claim C4, as the code has it. With \<open>eccentricity \<ge> camshaft_diameter / 2\<close> nothing is flagged:
  \<^verbatim>\<open>eccentric_camshaft\<close> returns, without an error, 200 samples on the circle about the
  eccentricity vector whose signed radius \<open>(camshaft_diameter - 2\<cdot>eccentricity)/2\<close> is not positive,
  and the DXF export of such a parameter set (library present, file writable, at least 2
  external pins, nonzero ring diameter) returns \<^verbatim>\<open>True\<close>.
\<close>

theorem eccentric_shaft_not_flagged:
  assumes "camshaft_diameter p / 2 \<le> eccentricity p"
    and "2 \<le> num_external_pins p" and "ring_diameter p \<noteq> 0"
  shows "\<exists>c doc. eccentric_camshaft (eccentricity p) (camshaft_diameter p) phi = Inr c
           \<and> length c = 200
           \<and> (\<forall>q \<in> set c. on_circle (eccentricity p * cos phi, eccentricity p * sin phi)
                               ((camshaft_diameter p - 2 * eccentricity p) / 2) q)
           \<and> (camshaft_diameter p - 2 * eccentricity p) / 2 \<le> 0
           \<and> export_to_dxf True True p phi = Inr (doc, True)"
proof -
  obtain doc where e: "export_to_dxf True True p phi = Inr (doc, True)"
    using export_to_dxf_ok [OF assms(2,3)] by blast
  have sr: "(camshaft_diameter p - 2 * eccentricity p) / 2
              = shaft_radius (eccentricity p) (camshaft_diameter p)"
    by (simp add: shaft_radius_def)
  have r: "shaft_radius (eccentricity p) (camshaft_diameter p) \<le> 0"
    using assms(1) by (simp add: shaft_radius_def)
  show ?thesis
    unfolding eccentric_camshaft_ok sr
    using e r by (auto simp: on_circle_sample)
qed

theorem eccentric_shaft_not_flagged_witness:
  "\<exists>c doc. eccentric_camshaft 3 4 0 = Inr c \<and> length c = 200
      \<and> export_to_dxf True True (example_params\<lparr>eccentricity := 3\<rparr>) 0 = Inr (doc, True)"
  using eccentric_shaft_not_flagged [of "example_params\<lparr>eccentricity := 3\<rparr>" 0]
  by (auto simp: example_params_def)

theorem eccentric_shaft_counterexample:
  "camshaft_diameter (example_params\<lparr>eccentricity := 3\<rparr>) / 2
     \<le> eccentricity (example_params\<lparr>eccentricity := 3\<rparr>)
   \<and> \<not> isl (eccentric_camshaft 3 4 0)
   \<and> \<not> isl (export_to_dxf True True (example_params\<lparr>eccentricity := 3\<rparr>) 0)"
proof -
  obtain doc where "export_to_dxf True True (example_params\<lparr>eccentricity := 3\<rparr>) 0 = Inr (doc, True)"
    using export_to_dxf_ok [of "example_params\<lparr>eccentricity := 3\<rparr>" 0]
    by (auto simp: example_params_def)
  then show ?thesis
    by (simp add: eccentric_camshaft_ok example_params_def)
qed

subsection \<open>Output pins and output holes\<close>



lemma rotation_norm:
  "(a * cos w - b * sin w)\<^sup>2 + (a * sin w + b * cos w)\<^sup>2 = a\<^sup>2 + b\<^sup>2" for a b w :: real
proof -
  have "(a * cos w - b * sin w)\<^sup>2 + (a * sin w + b * cos w)\<^sup>2
          = (a\<^sup>2 + b\<^sup>2) * ((cos w)\<^sup>2 + (sin w)\<^sup>2)"
    by (simp only: power2_eq_square) (simp only: algebra_simps)
  also have "\<dots> = a\<^sup>2 + b\<^sup>2" by simp
  finally show ?thesis .
qed

lemma sin_cos_circle': "(r * sin t)\<^sup>2 + (r * cos t)\<^sup>2 = r\<^sup>2" for r t :: real
  using sin_cos_circle [of r t] by (simp add: add.commute)

lemma inner_pin_sample_on_circle:
  "on_circle (rotate2 (- phi / of_int L) (spec_pin_center (2 * Rd) No i)) r
     (inner_pin_sample r Rd No phi L i t)"
proof -
  define w where "w = - phi / real_of_int L"
  define cx where "cx = Rd * cos (2 * pi * real i / of_int No)"
  define cy where "cy = Rd * sin (2 * pi * real i / of_int No)"
  have x: "((r * sin t + cx) * cos w - (r * cos t + cy) * sin w) - (cx * cos w - cy * sin w)
             = (r * sin t) * cos w - (r * cos t) * sin w"
    by (simp only: algebra_simps)
  have y: "((r * sin t + cx) * sin w + (r * cos t + cy) * cos w) - (cx * sin w + cy * cos w)
             = (r * sin t) * sin w + (r * cos t) * cos w"
    by (simp only: algebra_simps)
  have "(((r * sin t + cx) * cos w - (r * cos t + cy) * sin w) - (cx * cos w - cy * sin w))\<^sup>2
        + (((r * sin t + cx) * sin w + (r * cos t + cy) * cos w) - (cx * sin w + cy * cos w))\<^sup>2 = r\<^sup>2"
    unfolding x y rotation_norm by (rule sin_cos_circle')
  then show ?thesis
    by (simp add: on_circle_def inner_pin_sample_def rotate2_def spec_pin_center_def Let_def
          w_def cx_def cy_def)
qed

lemma inner_circle_sample_on_circle:
  "on_circle (translate2 (e * cos phi, e * sin phi)
                (rotate2 (- phi / of_int L) (spec_pin_center (2 * Rd) No i)))
     (opr + e + tol)
     (inner_circle_sample e opr Rd tol No phi L i t)"
proof -
  define w where "w = - phi / real_of_int L"
  define cx where "cx = Rd * cos (2 * pi * real i / of_int No)"
  define cy where "cy = Rd * sin (2 * pi * real i / of_int No)"
  define r where "r = opr + e + tol"
  define tx where "tx = e * cos phi"
  define ty where "ty = e * sin phi"
  have x: "((r * cos t + cx) * cos w - (r * sin t + cy) * sin w + tx) - (cx * cos w - cy * sin w + tx)
             = (r * cos t) * cos w - (r * sin t) * sin w"
    by (simp only: algebra_simps)
  have y: "((r * cos t + cx) * sin w + (r * sin t + cy) * cos w + ty) - (cx * sin w + cy * cos w + ty)
             = (r * cos t) * sin w + (r * sin t) * cos w"
    by (simp only: algebra_simps)
  have "(((r * cos t + cx) * cos w - (r * sin t + cy) * sin w + tx) - (cx * cos w - cy * sin w + tx))\<^sup>2
        + (((r * cos t + cx) * sin w + (r * sin t + cy) * cos w + ty) - (cx * sin w + cy * cos w + ty))\<^sup>2
        = r\<^sup>2"
    unfolding x y rotation_norm by (rule sin_cos_circle)
  then show ?thesis
    by (simp add: on_circle_def inner_circle_sample_def rotate2_def translate2_def spec_pin_center_def
          hole_radius_def Let_def w_def cx_def cy_def r_def tx_def ty_def)
qed

lemma linspace_200:
  "linspace 0 (2 * pi) 200 True = Inr (map (\<lambda>i. real i * (2 * pi / of_int (200 - 1))) [0..<nat 200])"
  by (rule linspace_endpoint) simp

lemma inner_pins_ok:
  assumes "N \<noteq> 1"
  shows "inner_pins No N out_pin_d out_disk_d phi =
           Inr (map (\<lambda>i. map (inner_pin_sample (out_pin_d / 2) (out_disk_d / 2) No phi (N - 1) i)
                              (map (\<lambda>i. real i * (2 * pi / of_int (200 - 1))) [0..<nat 200]))
                  [0..<nat No])"
  unfolding inner_pins_def linspace_200 Let_def using assms by simp

lemma inner_circles_ok:
  assumes "N \<noteq> 1"
  shows "inner_circles e No N out_pin_d out_disk_d phi tol =
           Inr (map (\<lambda>i. map (inner_circle_sample e (out_pin_d / 2) (out_disk_d / 2) tol No phi (N - 1) i)
                              (map (\<lambda>i. real i * (2 * pi / of_int (200 - 1))) [0..<nat 200]))
                  [0..<nat No])"
  unfolding inner_circles_def linspace_200 Let_def using assms by simp

lemma inner_pin_sample_circle_point:
  "inner_pin_sample r Rd No phi L i t
     = circle_point (rotate2 (- phi / of_int L) (spec_pin_center (2 * Rd) No i)) r
         (pi / 2 - (t + phi / of_int L))"
proof -
  define w where "w = - phi / real_of_int L"
  have a: "pi / 2 - (t + phi / real_of_int L) = pi / 2 - (t - w)" by (simp add: w_def)
  have c: "cos (pi / 2 - (t - w)) = sin t * cos w - cos t * sin w"
    by (simp add: cos_diff sin_diff)
  have s: "sin (pi / 2 - (t - w)) = sin t * sin w + cos t * cos w"
    by (simp add: cos_diff sin_diff)
  show ?thesis
    unfolding a w_def [symmetric] inner_pin_sample_def circle_point_def rotate2_def
      spec_pin_center_def Let_def fst_conv snd_conv c s
    by (simp add: algebra_simps)
qed

lemma inner_circle_sample_circle_point:
  "inner_circle_sample e opr Rd tol No phi L i t
     = circle_point (translate2 (e * cos phi, e * sin phi)
                       (rotate2 (- phi / of_int L) (spec_pin_center (2 * Rd) No i)))
         (opr + e + tol) (t - phi / of_int L)"
proof -
  define w where "w = - phi / real_of_int L"
  have a: "t - phi / real_of_int L = t + w" by (simp add: w_def)
  show ?thesis
    unfolding a w_def [symmetric] inner_circle_sample_def circle_point_def rotate2_def translate2_def
      spec_pin_center_def hole_radius_def Let_def fst_conv snd_conv cos_add sin_add
    by (simp add: algebra_simps)
qed

text \<open>
  Claim C6. With at least one lobe (\<open>num_external_pins \<noteq> 1\<close>), \<^verbatim>\<open>inner_pins\<close> and
  \<^verbatim>\<open>inner_circles\<close> each return \<open>num_output_pins\<close> curves of 200 samples. Sample \<open>j\<close> of pin
  \<open>i\<close> is the point at angle \<open>\<pi>/2 - (t\<^sub>j + \<phi>/L)\<close>, \<open>t\<^sub>j = 2\<pi>\<cdot>j/199\<close>, on the circle of radius
  \<open>output_pin_diameter/2\<close> about the pin center (angle \<open>2\<pi>\<cdot>i/num_output_pins\<close>, radius
  \<open>output_disk_diameter/2\<close>) rotated by \<open>-\<phi>/L\<close>, with no translation: the samples go once
  around that circle. Sample \<open>j\<close> of hole \<open>i\<close> is the point at angle \<open>t\<^sub>j - \<phi>/L\<close> on the circle
  of radius \<open>output_pin_diameter/2 + eccentricity + tolerance\<close> about the same rotated center
  translated by \<open>(e\<cdot>cos \<phi>, e\<cdot>sin \<phi>)\<close>.
\<close>

theorem output_pins_and_holes:
  assumes "N \<noteq> 1"
  shows "\<exists>pins holes.
           inner_pins No N out_pin_d out_disk_d phi = Inr pins
         \<and> inner_circles e No N out_pin_d out_disk_d phi tol = Inr holes
         \<and> length pins = nat No \<and> length holes = nat No
         \<and> (\<forall>i < nat No.
               length (pins ! i) = 200 \<and> length (holes ! i) = 200
             \<and> (\<forall>j < 200.
                   pins ! i ! j =
                     circle_point (rotate2 (- phi / of_int (N - 1)) (spec_pin_center out_disk_d No i))
                       (out_pin_d / 2) (pi / 2 - (real j * (2 * pi / 199) + phi / of_int (N - 1)))
                 \<and> holes ! i ! j =
                     circle_point (translate2 (e * cos phi, e * sin phi)
                                     (rotate2 (- phi / of_int (N - 1)) (spec_pin_center out_disk_d No i)))
                       (out_pin_d / 2 + e + tol) (real j * (2 * pi / 199) - phi / of_int (N - 1)))
             \<and> (\<forall>q \<in> set (pins ! i).
                   on_circle (rotate2 (- phi / of_int (N - 1)) (spec_pin_center out_disk_d No i))
                     (out_pin_d / 2) q)
             \<and> (\<forall>q \<in> set (holes ! i).
                   on_circle (translate2 (e * cos phi, e * sin phi)
                                (rotate2 (- phi / of_int (N - 1)) (spec_pin_center out_disk_d No i)))
                             (out_pin_d / 2 + e + tol) q))"
proof -
  define grid where "grid = map (\<lambda>i. real i * (2 * pi / of_int (200 - 1))) [0..<nat 200]"
  define pins where
    "pins = map (\<lambda>i. map (inner_pin_sample (out_pin_d / 2) (out_disk_d / 2) No phi (N - 1) i) grid)
              [0..<nat No]"
  define holes where
    "holes = map (\<lambda>i. map (inner_circle_sample e (out_pin_d / 2) (out_disk_d / 2) tol No phi (N - 1) i) grid)
               [0..<nat No]"
  have c: "spec_pin_center out_disk_d No i = spec_pin_center (2 * (out_disk_d / 2)) No i" for i
    by simp
  have 1: "inner_pins No N out_pin_d out_disk_d phi = Inr pins"
    unfolding pins_def grid_def by (rule inner_pins_ok [OF assms])
  have 2: "inner_circles e No N out_pin_d out_disk_d phi tol = Inr holes"
    unfolding holes_def grid_def by (rule inner_circles_ok [OF assms])
  have 3: "length pins = nat No" "length holes = nat No"
    by (simp_all add: pins_def holes_def)
  have g: "grid ! j = real j * (2 * pi / 199)" if "j < 200" for j
    using that by (simp add: grid_def)
  have lg: "length grid = 200" by (simp add: grid_def)
  have 4: "length (pins ! i) = 200 \<and> length (holes ! i) = 200
             \<and> (\<forall>j < 200.
                   pins ! i ! j =
                     circle_point (rotate2 (- phi / of_int (N - 1)) (spec_pin_center out_disk_d No i))
                       (out_pin_d / 2) (pi / 2 - (real j * (2 * pi / 199) + phi / of_int (N - 1)))
                 \<and> holes ! i ! j =
                     circle_point (translate2 (e * cos phi, e * sin phi)
                                     (rotate2 (- phi / of_int (N - 1)) (spec_pin_center out_disk_d No i)))
                       (out_pin_d / 2 + e + tol) (real j * (2 * pi / 199) - phi / of_int (N - 1)))
             \<and> (\<forall>q \<in> set (pins ! i).
                   on_circle (rotate2 (- phi / of_int (N - 1)) (spec_pin_center out_disk_d No i))
                     (out_pin_d / 2) q)
             \<and> (\<forall>q \<in> set (holes ! i).
                   on_circle (translate2 (e * cos phi, e * sin phi)
                                (rotate2 (- phi / of_int (N - 1)) (spec_pin_center out_disk_d No i)))
                             (out_pin_d / 2 + e + tol) q)"
    if i: "i < nat No" for i
  proof (intro conjI ballI allI impI)
    have p: "pins ! i = map (inner_pin_sample (out_pin_d / 2) (out_disk_d / 2) No phi (N - 1) i) grid"
      using i by (simp add: pins_def)
    have h: "holes ! i
               = map (inner_circle_sample e (out_pin_d / 2) (out_disk_d / 2) tol No phi (N - 1) i) grid"
      using i by (simp add: holes_def)
    show "length (pins ! i) = 200" by (simp add: p grid_def)
    show "length (holes ! i) = 200" by (simp add: h grid_def)
    show "pins ! i ! j =
            circle_point (rotate2 (- phi / of_int (N - 1)) (spec_pin_center out_disk_d No i))
              (out_pin_d / 2) (pi / 2 - (real j * (2 * pi / 199) + phi / of_int (N - 1)))"
      if "j < 200" for j
    proof -
      have "pins ! i ! j = inner_pin_sample (out_pin_d / 2) (out_disk_d / 2) No phi (N - 1) i (grid ! j)"
        unfolding p using that lg by simp
      then show ?thesis
        unfolding g [OF that] c by (simp only: inner_pin_sample_circle_point)
    qed
    show "holes ! i ! j =
            circle_point (translate2 (e * cos phi, e * sin phi)
                            (rotate2 (- phi / of_int (N - 1)) (spec_pin_center out_disk_d No i)))
              (out_pin_d / 2 + e + tol) (real j * (2 * pi / 199) - phi / of_int (N - 1))"
      if "j < 200" for j
    proof -
      have "holes ! i ! j
              = inner_circle_sample e (out_pin_d / 2) (out_disk_d / 2) tol No phi (N - 1) i (grid ! j)"
        unfolding h using that lg by simp
      then show ?thesis
        unfolding g [OF that] c by (simp only: inner_circle_sample_circle_point)
    qed
    show "on_circle (rotate2 (- phi / of_int (N - 1)) (spec_pin_center out_disk_d No i))
            (out_pin_d / 2) q" if "q \<in> set (pins ! i)" for q
    proof -
      from that obtain t
        where "q = inner_pin_sample (out_pin_d / 2) (out_disk_d / 2) No phi (N - 1) i t"
        unfolding p by auto
      then show ?thesis
        unfolding c by (simp only: inner_pin_sample_on_circle)
    qed
    show "on_circle (translate2 (e * cos phi, e * sin phi)
                      (rotate2 (- phi / of_int (N - 1)) (spec_pin_center out_disk_d No i)))
            (out_pin_d / 2 + e + tol) q" if "q \<in> set (holes ! i)" for q
    proof -
      from that obtain t
        where "q = inner_circle_sample e (out_pin_d / 2) (out_disk_d / 2) tol No phi (N - 1) i t"
        unfolding h by auto
      then show ?thesis
        unfolding c by (simp only: inner_circle_sample_on_circle)
    qed
  qed
  show ?thesis
    using 1 2 3 4 by blast
qed

theorem output_pins_and_holes_witness:
  "\<exists>pins holes.
      inner_pins 3 3 1 6 0 = Inr pins \<and> inner_circles 1 3 3 1 6 0 0 = Inr holes
    \<and> length pins = 3 \<and> length holes = 3
    \<and> length (pins ! 0) = 200 \<and> length (holes ! 0) = 200
    \<and> pins ! 0 ! 0 = (3, 1 / 2, 0)
    \<and> holes ! 0 ! 0 = (11 / 2, 0, 0)
    \<and> on_circle (3, 0) (1 / 2) (hd (pins ! 0))
    \<and> on_circle (4, 0) (3 / 2) (hd (holes ! 0))"
proof -
  have N: "(3 :: int) \<noteq> 1" by simp
  obtain pins holes where
    r: "inner_pins 3 3 1 6 0 = Inr pins" "inner_circles 1 3 3 1 6 0 0 = Inr holes"
       "length pins = nat 3" "length holes = nat 3"
    and a: "\<forall>i < nat 3.
               length (pins ! i) = 200 \<and> length (holes ! i) = 200
             \<and> (\<forall>j < 200.
                   pins ! i ! j =
                     circle_point (rotate2 (- 0 / of_int (3 - 1)) (spec_pin_center 6 3 i))
                       (1 / 2) (pi / 2 - (real j * (2 * pi / 199) + 0 / of_int (3 - 1)))
                 \<and> holes ! i ! j =
                     circle_point (translate2 (1 * cos 0, 1 * sin 0)
                                     (rotate2 (- 0 / of_int (3 - 1)) (spec_pin_center 6 3 i)))
                       (1 / 2 + 1 + 0) (real j * (2 * pi / 199) - 0 / of_int (3 - 1)))
             \<and> (\<forall>q \<in> set (pins ! i).
                   on_circle (rotate2 (- 0 / of_int (3 - 1)) (spec_pin_center 6 3 i)) (1 / 2) q)
             \<and> (\<forall>q \<in> set (holes ! i).
                   on_circle (translate2 (1 * cos 0, 1 * sin 0)
                                (rotate2 (- 0 / of_int (3 - 1)) (spec_pin_center 6 3 i)))
                             (1 / 2 + 1 + 0) q)"
    using output_pins_and_holes [OF N, of 3 1 6 0 1 0] by blast
  note a0 = a [rule_format, of 0]
  have l: "length (pins ! 0) = 200" "length (holes ! 0) = 200"
    using a0 by simp_all
  then have m: "hd (pins ! 0) \<in> set (pins ! 0)" "hd (holes ! 0) \<in> set (holes ! 0)"
    by (auto intro: hd_in_set)
  have s: "pins ! 0 ! 0 = (3, 1 / 2, 0)" "holes ! 0 ! 0 = (11 / 2, 0, 0)"
    using a0 by (simp_all add: circle_point_def rotate2_def translate2_def spec_pin_center_def)
  have "on_circle (rotate2 (- 0 / of_int (3 - 1)) (spec_pin_center 6 3 0)) (1 / 2) (hd (pins ! 0))"
    using a0 m(1) by simp
  moreover have "on_circle (translate2 (1 * cos 0, 1 * sin 0)
                                (rotate2 (- 0 / of_int (3 - 1)) (spec_pin_center 6 3 0)))
                             (1 / 2 + 1 + 0) (hd (holes ! 0))"
    using a0 m(2) by simp
  ultimately show ?thesis
    using r l s by (simp add: rotate2_def translate2_def spec_pin_center_def)
qed

subsection \<open>Tolerance and clearances\<close>














subsection \<open>The merged housing silhouette\<close>









lemma dxf_r_pin_alt:
  "dxf_r_pin R rp Ne theta =
     (if 0 \<le> (R * cos (of_int (dxf_pin_idx Ne theta) * (2 * pi / of_int Ne)) * cos theta
                 + R * sin (of_int (dxf_pin_idx Ne theta) * (2 * pi / of_int Ne)) * sin theta)\<^sup>2
               - (R\<^sup>2 - rp\<^sup>2)
      then (let d1 = (R * cos (of_int (dxf_pin_idx Ne theta) * (2 * pi / of_int Ne)) * cos theta
                       + R * sin (of_int (dxf_pin_idx Ne theta) * (2 * pi / of_int Ne)) * sin theta)
                     - sqrt ((R * cos (of_int (dxf_pin_idx Ne theta) * (2 * pi / of_int Ne)) * cos theta
                              + R * sin (of_int (dxf_pin_idx Ne theta) * (2 * pi / of_int Ne)) * sin theta)\<^sup>2
                             - (R\<^sup>2 - rp\<^sup>2))
            in if 0 < d1 then d1 else 1000000000)
      else 1000000000)"
  unfolding dxf_r_pin_def Let_def sin_cos_circle ..





lemma dxf_r_housing_spec: "dxf_r_housing R rp Ne theta = spec_housing_wall R rp Ne theta"
  by (simp add: dxf_r_housing_def spec_housing_wall_def Let_def field_simps)









subsection \<open>A vanishing derivative\<close>



lemma cycloid_sample_degenerate:
  assumes "(disk_dxa rc rs e t)\<^sup>2 + (disk_dya rc rs e t)\<^sup>2 = 0"
  shows "cycloid_sample rc rs e r phi L t = (None, None, 0)"
  unfolding cycloid_sample_def disk_xd_def disk_yd_def Let_def assms
  by (simp add: np_div_def np_mul_def np_add_def np_sub_def)

lemma export_disk_entity:
  assumes "export_to_dxf inst ok p phi = Inr (doc, b)"
  shows "\<exists>c. dxf_cycloid_disk (eccentricity p) (num_external_pins p) (ring_diameter p / 2)
                (pin_diameter p) (tolerance p) phi (eccentricity p * cos phi) (eccentricity p * sin phi)
              = Inr c
           \<and> entities_on CYCLOID_DISK doc = [Spline c True]"
proof -
  from export_to_dxf_Inr [OF assms] have d: "dxf_document p phi = Inr doc" by simp
  from d obtain ring c where
    ring: "(if show_outer_ring p
      then dxf_outer_ring (num_external_pins p) (ring_diameter p / 2) (pin_diameter p) (outer_ring_width p)
      else Inr []) = Inr ring"
    and c: "dxf_cycloid_disk (eccentricity p) (num_external_pins p) (ring_diameter p / 2) (pin_diameter p)
       (tolerance p) phi (eccentricity p * cos phi) (eccentricity p * sin phi) = Inr c"
    and doc: "doc = [(CENTER_AXIS, Point (0, 0))]
           @ dxf_pin_centers (num_external_pins p) (ring_diameter p / 2)
           @ ring
           @ dxf_output_pins (num_output_pins p) (output_disk_diameter p / 2) (output_pin_diameter p)
           @ dxf_output_holes (num_output_pins p) (output_disk_diameter p / 2) (output_pin_diameter p)
               (eccentricity p) (tolerance p) (eccentricity p * cos phi) (eccentricity p * sin phi)
           @ dxf_camshaft (camshaft_diameter p) (eccentricity p) (tolerance p)
               (eccentricity p * cos phi) (eccentricity p * sin phi)
           @ [(CYCLOID_DISK, Spline c True)]"
    by (rule dxf_document_Inr)
  have "entities_on CYCLOID_DISK doc = [Spline c True]"
    unfolding doc
    by (simp add: entities_on_append entities_on_Cons entities_on_Nil entities_on_pin_centers
          entities_on_output_pins entities_on_output_holes dxf_outer_ring_layers [OF ring]
          dxf_camshaft_def)
  with c show ?thesis by blast
qed

text \<open>
  Claim C3, as the code has it. With \<open>num_external_pins \<ge> 2\<close> and a nonzero ring diameter, a
  derivative \<open>(dxa, dya)\<close> that is exactly zero at a sample raises nothing. \<^verbatim>\<open>cycloid_disk\<close>
  returns its one curve of \<open>1500 \<cdot> L\<close> samples, and each sample with a zero derivative has
  non-finite \<open>x\<close> and \<open>y\<close> coordinates. The DXF export (library present, file writable) returns
  \<^verbatim>\<open>True\<close>, and each point of its disk spline with a zero derivative is non-finite as well.
\<close>

theorem degenerate_derivative_not_flagged:
  assumes "2 \<le> N" and "D \<noteq> 0"
  shows "\<exists>c. cycloid_disk e N D pin_d phi tol = Inr [c]
           \<and> length c = nat (1500 * (N - 1))
           \<and> (\<forall>i < length c.
                 (disk_dxa (spec_rolling_radius (N - 1) D) (spec_stationary_radius (N - 1) D) e
                    (real i * (2 * pi / of_int (1500 * (N - 1) - 1))))\<^sup>2
                 + (disk_dya (spec_rolling_radius (N - 1) D) (spec_stationary_radius (N - 1) D) e
                    (real i * (2 * pi / of_int (1500 * (N - 1) - 1))))\<^sup>2 = 0
                 \<longrightarrow> c ! i = (None, None, 0))
           \<and> (\<forall>p. eccentricity p = e \<and> num_external_pins p = N \<and> ring_diameter p = D
                    \<and> pin_diameter p = pin_d \<and> tolerance p = tol
                 \<longrightarrow> (\<exists>doc s. export_to_dxf True True p phi = Inr (doc, True)
                        \<and> entities_on CYCLOID_DISK doc = [Spline s True]
                        \<and> length s = nat (60 * (N - 1))
                        \<and> (\<forall>j < length s.
                              (disk_dxa (spec_rolling_radius (N - 1) D) (spec_stationary_radius (N - 1) D) e
                                 (real j * (2 * pi / of_int (60 * (N - 1) - 1))))\<^sup>2
                              + (disk_dya (spec_rolling_radius (N - 1) D) (spec_stationary_radius (N - 1) D) e
                                   (real j * (2 * pi / of_int (60 * (N - 1) - 1))))\<^sup>2 = 0
                              \<longrightarrow> s ! j = (None, None, 0))))"
proof -
  define f where "f = cycloid_sample (spec_rolling_radius (N - 1) D) (spec_stationary_radius (N - 1) D) e
                        (effective_pin_radius pin_d tol) phi (N - 1)"
  define grid where "grid ppl = map (\<lambda>i. real i * (2 * pi / of_int (ppl * (N - 1) - 1)))
                                  [0..<nat (ppl * (N - 1))]" for ppl :: int
  have deg: "map f (grid ppl) ! i = (None, None, 0)"
    if "i < length (map f (grid ppl))"
      and "(disk_dxa (spec_rolling_radius (N - 1) D) (spec_stationary_radius (N - 1) D) e
              (real i * (2 * pi / of_int (ppl * (N - 1) - 1))))\<^sup>2
           + (disk_dya (spec_rolling_radius (N - 1) D) (spec_stationary_radius (N - 1) D) e
              (real i * (2 * pi / of_int (ppl * (N - 1) - 1))))\<^sup>2 = 0" for ppl i
    using that(1) cycloid_sample_degenerate [OF that(2)] by (simp add: grid_def f_def)
  have n1: "1 < 1500 * (N - 1)" using assms(1) by simp
  have disp: "cycloid_disk e N D pin_d phi tol = Inr [map f (grid 1500)]"
    unfolding cycloid_disk_def f_def grid_def by (rule cycloid_disk_pts_ok [OF assms n1])
  have len: "length (map f (grid ppl)) = nat (ppl * (N - 1))" for ppl
    by (simp add: grid_def)
  have ex: "\<exists>doc s. export_to_dxf True True p phi = Inr (doc, True)
                        \<and> entities_on CYCLOID_DISK doc = [Spline s True]
                        \<and> length s = nat (60 * (N - 1))
                        \<and> (\<forall>j < length s.
                              (disk_dxa (spec_rolling_radius (N - 1) D) (spec_stationary_radius (N - 1) D) e
                                 (real j * (2 * pi / of_int (60 * (N - 1) - 1))))\<^sup>2
                              + (disk_dya (spec_rolling_radius (N - 1) D) (spec_stationary_radius (N - 1) D) e
                                   (real j * (2 * pi / of_int (60 * (N - 1) - 1))))\<^sup>2 = 0
                              \<longrightarrow> s ! j = (None, None, 0))"
    if p: "eccentricity p = e \<and> num_external_pins p = N \<and> ring_diameter p = D
                    \<and> pin_diameter p = pin_d \<and> tolerance p = tol" for p
  proof -
    have pN: "2 \<le> num_external_pins p" and pD: "ring_diameter p \<noteq> 0"
      using p assms by simp_all
    obtain doc where e: "export_to_dxf True True p phi = Inr (doc, True)"
      using export_to_dxf_ok [OF pN pD] by blast
    from export_disk_entity [OF e] obtain s where
      s: "dxf_cycloid_disk (eccentricity p) (num_external_pins p) (ring_diameter p / 2)
            (pin_diameter p) (tolerance p) phi (eccentricity p * cos phi) (eccentricity p * sin phi)
          = Inr s"
      and on: "entities_on CYCLOID_DISK doc = [Spline s True]"
      by blast
    have "s = map f (grid 60)"
      using s dxf_cycloid_disk_ok [OF pN pD, of "eccentricity p" "pin_diameter p" "tolerance p" phi]
      by (simp add: p f_def grid_def)
    with e on len [of 60] deg [of _ 60] show ?thesis by blast
  qed
  show ?thesis
    using disp len [of 1500] deg [of _ 1500] ex by blast
qed

theorem degenerate_derivative_not_flagged_witness:
  "\<exists>c doc s. cycloid_disk 10 4 80 5 0 0 = Inr [c] \<and> length c = 4500 \<and> c ! 0 = (None, None, 0)
      \<and> export_to_dxf True True degenerate_params 0 = Inr (doc, True)
      \<and> entities_on CYCLOID_DISK doc = [Spline s True] \<and> length s = 180
      \<and> s ! 0 = (None, None, 0)"
proof -
  have N: "(2 :: int) \<le> 4" and D: "(80 :: real) \<noteq> 0" by simp_all
  have z: "(disk_dxa (spec_rolling_radius (4 - 1) 80) (spec_stationary_radius (4 - 1) 80) 10 0)\<^sup>2
           + (disk_dya (spec_rolling_radius (4 - 1) 80) (spec_stationary_radius (4 - 1) 80) 10 0)\<^sup>2 = 0"
    by (simp add: disk_dxa_def disk_dya_def spec_rolling_radius_def spec_stationary_radius_def)
  from degenerate_derivative_not_flagged [OF N D, of 10 5 0 0]
  obtain c where
    1: "cycloid_disk 10 4 80 5 0 0 = Inr [c]" and 2: "length c = nat (1500 * (4 - 1))"
    and 3: "\<forall>i < length c.
                 (disk_dxa (spec_rolling_radius (4 - 1) 80) (spec_stationary_radius (4 - 1) 80) 10
                    (real i * (2 * pi / of_int (1500 * (4 - 1) - 1))))\<^sup>2
                 + (disk_dya (spec_rolling_radius (4 - 1) 80) (spec_stationary_radius (4 - 1) 80) 10
                    (real i * (2 * pi / of_int (1500 * (4 - 1) - 1))))\<^sup>2 = 0
                 \<longrightarrow> c ! i = (None, None, 0)"
    and 4: "\<forall>p. eccentricity p = 10 \<and> num_external_pins p = 4 \<and> ring_diameter p = 80
                    \<and> pin_diameter p = 5 \<and> tolerance p = 0
                 \<longrightarrow> (\<exists>doc s. export_to_dxf True True p 0 = Inr (doc, True)
                        \<and> entities_on CYCLOID_DISK doc = [Spline s True]
                        \<and> length s = nat (60 * (4 - 1))
                        \<and> (\<forall>j < length s.
                              (disk_dxa (spec_rolling_radius (4 - 1) 80) (spec_stationary_radius (4 - 1) 80) 10
                                 (real j * (2 * pi / of_int (60 * (4 - 1) - 1))))\<^sup>2
                              + (disk_dya (spec_rolling_radius (4 - 1) 80) (spec_stationary_radius (4 - 1) 80) 10
                                   (real j * (2 * pi / of_int (60 * (4 - 1) - 1))))\<^sup>2 = 0
                              \<longrightarrow> s ! j = (None, None, 0)))"
    by blast
  have c0: "c ! 0 = (None, None, 0)"
    using 3 [rule_format, of 0] 2 z by simp
  from 4 [rule_format, of degenerate_params]
  obtain doc s where 5: "export_to_dxf True True degenerate_params 0 = Inr (doc, True)"
      "entities_on CYCLOID_DISK doc = [Spline s True]" "length s = nat (60 * (4 - 1))"
    and 6: "\<forall>j < length s.
                              (disk_dxa (spec_rolling_radius (4 - 1) 80) (spec_stationary_radius (4 - 1) 80) 10
                                 (real j * (2 * pi / of_int (60 * (4 - 1) - 1))))\<^sup>2
                              + (disk_dya (spec_rolling_radius (4 - 1) 80) (spec_stationary_radius (4 - 1) 80) 10
                                   (real j * (2 * pi / of_int (60 * (4 - 1) - 1))))\<^sup>2 = 0
                              \<longrightarrow> s ! j = (None, None, 0)"
    by (auto simp: degenerate_params_def)
  have s0: "s ! 0 = (None, None, 0)"
    using 6 [rule_format, of 0] 5(3) z by simp
  show ?thesis
    using 1 2 c0 5 s0 by auto
qed

text \<open>
  For \<open>degenerate_params\<close> the derivative vanishes at \<open>t = 0\<close>; the generator returns a curve
  whose first sample is non-finite, and the export returns normally.
\<close>

theorem degenerate_derivative_counterexample:
  "disk_dxa (spec_rolling_radius 3 80) (spec_stationary_radius 3 80) 10 0 = 0
   \<and> disk_dya (spec_rolling_radius 3 80) (spec_stationary_radius 3 80) 10 0 = 0
   \<and> \<not> isl (cycloid_disk 10 4 80 5 0 0)
   \<and> hd (hd (projr (cycloid_disk 10 4 80 5 0 0))) = (None, None, 0)
   \<and> \<not> isl (export_to_dxf True True degenerate_params 0)"
proof -
  have res: "cycloid_disk 10 4 80 5 0 0 =
           Inr [map (cycloid_sample (spec_rolling_radius (4 - 1) 80) (spec_stationary_radius (4 - 1) 80) 10
                       (effective_pin_radius 5 0) 0 (4 - 1))
                  (map (\<lambda>i. real i * (2 * pi / of_int (1500 * (4 - 1) - 1))) [0..<nat (1500 * (4 - 1))])]"
    unfolding cycloid_disk_def by (rule cycloid_disk_pts_ok) simp_all
  have d: "disk_dxa (spec_rolling_radius 3 80) (spec_stationary_radius 3 80) 10 0 = 0"
      "disk_dya (spec_rolling_radius 3 80) (spec_stationary_radius 3 80) 10 0 = 0"
    by (simp_all add: disk_dxa_def disk_dya_def spec_rolling_radius_def spec_stationary_radius_def)
  have s: "cycloid_sample (spec_rolling_radius 3 80) (spec_stationary_radius 3 80) 10 r 0 3 0
             = (None, None, 0)" for r
    by (rule cycloid_sample_degenerate) (simp add: d)
  have ne: "[0..<nat (1500 * (4 - 1))] \<noteq> []" by simp
  have h: "hd (hd (projr (cycloid_disk 10 4 80 5 0 0))) = (None, None, 0)"
    unfolding res by (simp add: hd_map [OF ne] hd_map s)
  obtain doc where "export_to_dxf True True degenerate_params 0 = Inr (doc, True)"
    using export_to_dxf_ok [of degenerate_params 0] by (auto simp: degenerate_params_def)
  then show ?thesis using d h by (simp add: res)
qed

subsection \<open>The export without the eccentric cam\<close>

lemma dxf_r_pin_spec: "dxf_r_pin R rp Ne theta = spec_pin_intersection R rp Ne theta"
  unfolding dxf_r_pin_alt dxf_pin_idx_def spec_pin_intersection_def Let_def
  by simp

lemma dxf_polyline_spec:
  "map (\<lambda>theta. (dxf_final_r R rp Ne theta * cos theta, dxf_final_r R rp Ne theta * sin theta))
     (map (\<lambda>i. real i * (2 * pi / of_int (Ne * 30))) [0..<nat (Ne * 30)])
   = map (\<lambda>i. (min (spec_housing_wall R rp Ne (real i * (2 * pi / of_int (Ne * 30))))
                     (spec_pin_intersection R rp Ne (real i * (2 * pi / of_int (Ne * 30))))
                  * cos (real i * (2 * pi / of_int (Ne * 30))),
                 min (spec_housing_wall R rp Ne (real i * (2 * pi / of_int (Ne * 30))))
                     (spec_pin_intersection R rp Ne (real i * (2 * pi / of_int (Ne * 30))))
                  * sin (real i * (2 * pi / of_int (Ne * 30)))))
       [0..<nat (Ne * 30)]"
  unfolding map_map o_def dxf_final_r_def dxf_r_housing_spec dxf_r_pin_spec ..

lemma dxf_spline_spec:
  "map (cycloid_sample (spec_rolling_radius (Ne - 1) D) (spec_stationary_radius (Ne - 1) D) e
          (effective_pin_radius pd tol) phi (Ne - 1))
     (map (\<lambda>i. real i * (2 * pi / of_int (60 * (Ne - 1) - 1))) [0..<nat (60 * (Ne - 1))])
   = map (\<lambda>i. np_point_of (spec_disk_point e Ne D pd phi tol
                               (real i * (2 * pi / of_int (60 * (Ne - 1) - 1)))))
       [0..<nat (60 * (Ne - 1))]"
  unfolding map_map o_def cycloid_sample_spec ..

lemma dxf_pin_centers_spec:
  "dxf_pin_centers Ne R
     = map (\<lambda>i. (PIN_CENTERS, Point (R * cos (2 * pi * real i / of_int Ne),
                                       R * sin (2 * pi * real i / of_int Ne))))
         [0..<nat Ne]"
  unfolding dxf_pin_centers_def Let_def ..

lemma dxf_output_pins_spec:
  "dxf_output_pins No Rd d
     = map (\<lambda>i. (OUTPUT_PINS, Circle (Rd * cos (2 * pi * real i / of_int No),
                                        Rd * sin (2 * pi * real i / of_int No)) (d / 2)))
         [0..<nat No]"
  unfolding dxf_output_pins_def Let_def ..

lemma dxf_output_holes_spec:
  "dxf_output_holes No Rd d e tol cx cy
     = map (\<lambda>i. (OUTPUT_HOLES, Circle (Rd * cos (2 * pi * real i / of_int No) + cx,
                                         Rd * sin (2 * pi * real i / of_int No) + cy)
                                  (d / 2 + e + tol)))
         [0..<nat No]"
  unfolding dxf_output_holes_def dxf_hole_r_def Let_def ..

lemma entities_on_map_same:
  "entities_on l (map (\<lambda>i. (l, f i)) xs) = map f xs"
  by (simp add: entities_on_def o_def)

lemma entities_on_map_other:
  "l \<noteq> l' \<Longrightarrow> entities_on l (map (\<lambda>i. (l', f i)) xs) = []"
  by (simp add: entities_on_def)

text \<open>
  Claim C10. With an eccentric-shaft radius \<open>(camshaft_diameter - 2\<cdot>eccentricity)/2 \<le> 0\<close> the
  export (library present, file writable, at least 2 external pins, nonzero ring diameter)
  raises nothing and returns \<^verbatim>\<open>True\<close>. The document has no entity on \<^verbatim>\<open>ECCENTRIC_CAM\<close>,
  and every other layer holds what it always holds: the axis point at the origin; one point per
  external pin center on the ring; when the ring is shown, the closed polyline of the merged
  housing radius \<open>min (wall) (pin intersection)\<close> at 30 angles per pin and the outer circle of
  radius \<open>ring radius + ring width\<close>; one circle of radius \<open>output_pin_diameter/2\<close> per output pin;
  one circle of radius \<open>output_pin_diameter/2 + eccentricity + tolerance\<close> per output hole, moved
  by the eccentricity vector; the camshaft bore of radius \<open>camshaft_diameter/2 + tolerance\<close>; and
  the closed spline through the 60 samples per lobe of the disk outline.
\<close>

theorem export_to_dxf_omits_cam:
  assumes "2 \<le> num_external_pins p" and "ring_diameter p \<noteq> 0"
    and "(camshaft_diameter p - 2 * eccentricity p) / 2 \<le> 0"
  shows "\<exists>doc. export_to_dxf True True p phi = Inr (doc, True)
           \<and> entities_on ECCENTRIC_CAM doc = []
           \<and> entities_on CENTER_AXIS doc = [Point (0, 0)]
           \<and> entities_on PIN_CENTERS doc
               = map (\<lambda>i. Point (ring_diameter p / 2 * cos (2 * pi * real i / of_int (num_external_pins p)),
                                  ring_diameter p / 2 * sin (2 * pi * real i / of_int (num_external_pins p))))
                   [0..<nat (num_external_pins p)]
           \<and> entities_on OUTER_RING doc
               = (if show_outer_ring p
                  then [LWPolyline
                          (map (\<lambda>i. (min (spec_housing_wall (ring_diameter p / 2) (pin_diameter p / 2)
                                             (num_external_pins p)
                                             (real i * (2 * pi / of_int (num_external_pins p * 30))))
                                          (spec_pin_intersection (ring_diameter p / 2) (pin_diameter p / 2)
                                             (num_external_pins p)
                                             (real i * (2 * pi / of_int (num_external_pins p * 30))))
                                       * cos (real i * (2 * pi / of_int (num_external_pins p * 30))),
                                      min (spec_housing_wall (ring_diameter p / 2) (pin_diameter p / 2)
                                             (num_external_pins p)
                                             (real i * (2 * pi / of_int (num_external_pins p * 30))))
                                          (spec_pin_intersection (ring_diameter p / 2) (pin_diameter p / 2)
                                             (num_external_pins p)
                                             (real i * (2 * pi / of_int (num_external_pins p * 30))))
                                       * sin (real i * (2 * pi / of_int (num_external_pins p * 30)))))
                             [0..<nat (num_external_pins p * 30)])
                          True,
                        Circle (0, 0) (ring_diameter p / 2 + outer_ring_width p)]
                  else [])
           \<and> entities_on OUTPUT_PINS doc
               = map (\<lambda>i. Circle (output_disk_diameter p / 2 * cos (2 * pi * real i / of_int (num_output_pins p)),
                                   output_disk_diameter p / 2 * sin (2 * pi * real i / of_int (num_output_pins p)))
                             (output_pin_diameter p / 2))
                   [0..<nat (num_output_pins p)]
           \<and> entities_on OUTPUT_HOLES doc
               = map (\<lambda>i. Circle (output_disk_diameter p / 2 * cos (2 * pi * real i / of_int (num_output_pins p))
                                     + eccentricity p * cos phi,
                                   output_disk_diameter p / 2 * sin (2 * pi * real i / of_int (num_output_pins p))
                                     + eccentricity p * sin phi)
                             (output_pin_diameter p / 2 + eccentricity p + tolerance p))
                   [0..<nat (num_output_pins p)]
           \<and> entities_on CAMSHAFT_HOLE doc = [Circle (0, 0) (camshaft_diameter p / 2 + tolerance p)]
           \<and> entities_on CYCLOID_DISK doc
               = [Spline
                    (map (\<lambda>i. np_point_of
                                 (spec_disk_point (eccentricity p) (num_external_pins p) (ring_diameter p)
                                    (pin_diameter p) phi (tolerance p)
                                    (real i * (2 * pi / of_int (60 * (num_external_pins p - 1) - 1)))))
                       [0..<nat (60 * (num_external_pins p - 1))])
                    True]
           \<and> length doc = 1 + nat (num_external_pins p) + (if show_outer_ring p then 2 else 0)
                            + nat (num_output_pins p) + nat (num_output_pins p) + 1 + 1"
proof -
  define pins where
    "pins = map (\<lambda>i. (PIN_CENTERS,
                       Point (ring_diameter p / 2 * cos (2 * pi * real i / of_int (num_external_pins p)),
                              ring_diameter p / 2 * sin (2 * pi * real i / of_int (num_external_pins p)))))
              [0..<nat (num_external_pins p)]"
  define poly where
    "poly = map (\<lambda>i. (min (spec_housing_wall (ring_diameter p / 2) (pin_diameter p / 2)
                                             (num_external_pins p)
                                             (real i * (2 * pi / of_int (num_external_pins p * 30))))
                                          (spec_pin_intersection (ring_diameter p / 2) (pin_diameter p / 2)
                                             (num_external_pins p)
                                             (real i * (2 * pi / of_int (num_external_pins p * 30))))
                                       * cos (real i * (2 * pi / of_int (num_external_pins p * 30))),
                                      min (spec_housing_wall (ring_diameter p / 2) (pin_diameter p / 2)
                                             (num_external_pins p)
                                             (real i * (2 * pi / of_int (num_external_pins p * 30))))
                                          (spec_pin_intersection (ring_diameter p / 2) (pin_diameter p / 2)
                                             (num_external_pins p)
                                             (real i * (2 * pi / of_int (num_external_pins p * 30))))
                                       * sin (real i * (2 * pi / of_int (num_external_pins p * 30)))))
                             [0..<nat (num_external_pins p * 30)]"
  define ring where
    "ring = (if show_outer_ring p
             then [(OUTER_RING, LWPolyline poly True),
                   (OUTER_RING, Circle (0, 0) (ring_diameter p / 2 + outer_ring_width p))]
             else [])"
  define opins where
    "opins = map (\<lambda>i. (OUTPUT_PINS,
                        Circle (output_disk_diameter p / 2 * cos (2 * pi * real i / of_int (num_output_pins p)),
                                output_disk_diameter p / 2 * sin (2 * pi * real i / of_int (num_output_pins p)))
                          (output_pin_diameter p / 2)))
               [0..<nat (num_output_pins p)]"
  define holes where
    "holes = map (\<lambda>i. (OUTPUT_HOLES,
                        Circle (output_disk_diameter p / 2 * cos (2 * pi * real i / of_int (num_output_pins p))
                                     + eccentricity p * cos phi,
                                output_disk_diameter p / 2 * sin (2 * pi * real i / of_int (num_output_pins p))
                                     + eccentricity p * sin phi)
                          (output_pin_diameter p / 2 + eccentricity p + tolerance p)))
               [0..<nat (num_output_pins p)]"
  define spl where
    "spl = map (\<lambda>i. np_point_of
                                 (spec_disk_point (eccentricity p) (num_external_pins p) (ring_diameter p)
                                    (pin_diameter p) phi (tolerance p)
                                    (real i * (2 * pi / of_int (60 * (num_external_pins p - 1) - 1)))))
                       [0..<nat (60 * (num_external_pins p - 1))]"
  define doc where
    "doc = [(CENTER_AXIS, Point (0, 0))] @ pins @ ring @ opins @ holes
           @ [(CAMSHAFT_HOLE, Circle (0, 0) (camshaft_diameter p / 2 + tolerance p))]
           @ [(CYCLOID_DISK, Spline spl True)]"
  have 0: "0 \<le> num_external_pins p" using assms(1) by simp
  have r: "(if show_outer_ring p
            then dxf_outer_ring (num_external_pins p) (ring_diameter p / 2) (pin_diameter p)
                   (outer_ring_width p)
            else Inr []) = Inr ring"
    unfolding dxf_outer_ring_ok [OF 0] dxf_polyline_spec ring_def poly_def by simp
  have c: "dxf_cycloid_disk (eccentricity p) (num_external_pins p) (ring_diameter p / 2) (pin_diameter p)
             (tolerance p) phi (eccentricity p * cos phi) (eccentricity p * sin phi) = Inr spl"
    unfolding dxf_cycloid_disk_ok [OF assms(1,2)] dxf_spline_spec spl_def ..
  have cam: "dxf_camshaft (camshaft_diameter p) (eccentricity p) (tolerance p) cx cy
               = [(CAMSHAFT_HOLE, Circle (0, 0) (camshaft_diameter p / 2 + tolerance p))]" for cx cy
    using assms(3) by (simp add: dxf_camshaft_def dxf_cam_lobe_r_def dxf_cam_hole_r_def)
  have d: "dxf_document p phi = Inr doc"
    unfolding dxf_document_def Let_def r c cam dxf_pin_centers_spec dxf_output_pins_spec
      dxf_output_holes_spec doc_def pins_def opins_def holes_def
    by simp
  have e: "export_to_dxf True True p phi = Inr (doc, True)"
    by (simp add: export_to_dxf_def d)
  note on = entities_on_append entities_on_Cons entities_on_Nil entities_on_map_same
    entities_on_map_other
  have ring_on: "entities_on l ring = (if l = OUTER_RING then map snd ring else [])" for l
    by (simp add: ring_def on)
  have 1: "entities_on ECCENTRIC_CAM doc = []"
    unfolding doc_def pins_def opins_def holes_def by (simp add: on ring_on)
  have 2: "entities_on CENTER_AXIS doc = [Point (0, 0)]"
    unfolding doc_def pins_def opins_def holes_def by (simp add: on ring_on)
  have 3: "entities_on PIN_CENTERS doc = map snd pins"
    unfolding doc_def opins_def holes_def by (simp add: on ring_on) (simp add: pins_def on o_def)
  have 4: "entities_on OUTER_RING doc = map snd ring"
    unfolding doc_def pins_def opins_def holes_def by (simp add: on ring_on)
  have 5: "entities_on OUTPUT_PINS doc = map snd opins"
    unfolding doc_def pins_def holes_def by (simp add: on ring_on) (simp add: opins_def on o_def)
  have 6: "entities_on OUTPUT_HOLES doc = map snd holes"
    unfolding doc_def pins_def opins_def by (simp add: on ring_on) (simp add: holes_def on o_def)
  have 7: "entities_on CAMSHAFT_HOLE doc = [Circle (0, 0) (camshaft_diameter p / 2 + tolerance p)]"
    unfolding doc_def pins_def opins_def holes_def by (simp add: on ring_on)
  have 8: "entities_on CYCLOID_DISK doc = [Spline spl True]"
    unfolding doc_def pins_def opins_def holes_def by (simp add: on ring_on)
  have 9: "length doc = 1 + nat (num_external_pins p) + (if show_outer_ring p then 2 else 0)
                            + nat (num_output_pins p) + nat (num_output_pins p) + 1 + 1"
    by (simp add: doc_def pins_def ring_def opins_def holes_def)
  have m3: "map snd pins = map (\<lambda>i. Point (ring_diameter p / 2 * cos (2 * pi * real i / of_int (num_external_pins p)),
                                  ring_diameter p / 2 * sin (2 * pi * real i / of_int (num_external_pins p))))
                   [0..<nat (num_external_pins p)]"
    unfolding pins_def map_map o_def snd_conv ..
  have m4: "map snd ring = (if show_outer_ring p
                  then [LWPolyline poly True,
                        Circle (0, 0) (ring_diameter p / 2 + outer_ring_width p)]
                  else [])"
    by (simp add: ring_def)
  have m5: "map snd opins = map (\<lambda>i. Circle (output_disk_diameter p / 2 * cos (2 * pi * real i / of_int (num_output_pins p)),
                                   output_disk_diameter p / 2 * sin (2 * pi * real i / of_int (num_output_pins p)))
                             (output_pin_diameter p / 2))
                   [0..<nat (num_output_pins p)]"
    unfolding opins_def map_map o_def snd_conv ..
  have m6: "map snd holes = map (\<lambda>i. Circle (output_disk_diameter p / 2 * cos (2 * pi * real i / of_int (num_output_pins p))
                                     + eccentricity p * cos phi,
                                   output_disk_diameter p / 2 * sin (2 * pi * real i / of_int (num_output_pins p))
                                     + eccentricity p * sin phi)
                             (output_pin_diameter p / 2 + eccentricity p + tolerance p))
                   [0..<nat (num_output_pins p)]"
    unfolding holes_def map_map o_def snd_conv ..
  show ?thesis
    using e 1 2 3 [unfolded m3] 4 [unfolded m4 poly_def] 5 [unfolded m5] 6 [unfolded m6] 7
      8 [unfolded spl_def] 9
    by (intro exI [of _ doc] conjI)
qed

theorem export_to_dxf_omits_cam_witness:
  "\<exists>doc. export_to_dxf True True (example_params\<lparr>eccentricity := 3\<rparr>) 0 = Inr (doc, True)
     \<and> entities_on ECCENTRIC_CAM doc = []
     \<and> entities_on CENTER_AXIS doc = [Point (0, 0)]
     \<and> entities_on CAMSHAFT_HOLE doc = [Circle (0, 0) 2]
     \<and> hd (entities_on PIN_CENTERS doc) = Point (6, 0)
     \<and> hd (entities_on OUTPUT_PINS doc) = Circle (3, 0) (1 / 2)
     \<and> hd (entities_on OUTPUT_HOLES doc) = Circle (6, 0) (7 / 2)
     \<and> length (entities_on OUTER_RING doc) = 2
     \<and> length (entities_on CYCLOID_DISK doc) = 1
     \<and> length doc = 14"
proof -
  have h: "2 \<le> num_external_pins (example_params\<lparr>eccentricity := 3\<rparr>)"
      "ring_diameter (example_params\<lparr>eccentricity := 3\<rparr>) \<noteq> 0"
      "(camshaft_diameter (example_params\<lparr>eccentricity := 3\<rparr>)
          - 2 * eccentricity (example_params\<lparr>eccentricity := 3\<rparr>)) / 2 \<le> 0"
    by (simp_all add: example_params_def)
  have ne: "[0..<3 :: nat] \<noteq> []" by simp
  have h0: "hd [0..<3 :: nat] = 0" by (simp add: upt_rec)
  from export_to_dxf_omits_cam [OF h, of 0] show ?thesis
    by (auto simp: example_params_def hd_map [OF ne] h0)
qed

end
